theory Spec2Isabelle
  imports Complex_Main "HOL-Library.AList"
begin

section \<open>The empathy engine: emotion detection, voice mapping, synthesis dispatch\<close>

text \<open>
  A shallow embedding of \<^verbatim>\<open>empathy_engine/voice_mapper.py\<close>,
  \<^verbatim>\<open>empathy_engine/emotion_detector.py\<close>, \<^verbatim>\<open>empathy_engine/tts_engine.py\<close>,
  \<^verbatim>\<open>empathy_engine/engine.py\<close> and the \<^verbatim>\<open>/synthesize\<close> route of
  \<^verbatim>\<open>web/app.py\<close>.

  Conventions of the embedding.
  \<^item> A Python \<^verbatim>\<open>float\<close> is a rational number and float arithmetic is exact
    arithmetic: the rounding of binary floating point is not part of the model.
  \<^item> A raised exception is the \<open>Inl\<close> branch of a sum; a function that cannot raise
    returns its value directly.
  \<^item> A \<^verbatim>\<open>dict\<close> is an association list in insertion order with distinct keys.
  \<^item> A text is the list of the bytes of its UTF-8 encoding.
  \<^item> The external collaborators (sentiment scorer, emotion classifier, the three
    speech back ends, the platform test, \<^verbatim>\<open>uuid4\<close>) and two functions of the language
    that rest on tables outside the program (the \<^verbatim>\<open>repr\<close> of a float and \<^verbatim>\<open>str.lower\<close>)
    are parameters.
\<close>

subsection \<open>Exceptions and dictionaries\<close>

datatype error =
    KeyError string
  | IndexError string
  | ValueError string
  | RuntimeError string

type_synonym ('k, 'v) dict = "('k \<times> 'v) list"

text \<open>\<^verbatim>\<open>d[k]\<close>: raises \<^verbatim>\<open>KeyError\<close> on a missing key.\<close>

definition dict_index :: "(string, 'v) dict \<Rightarrow> string \<Rightarrow> error + 'v" where
  "dict_index d k = (case map_of d k of None \<Rightarrow> Inl (KeyError k) | Some v \<Rightarrow> Inr v)"

text \<open>\<^verbatim>\<open>d.get(k, default)\<close>.\<close>

definition dict_get :: "('k, 'v) dict \<Rightarrow> 'k \<Rightarrow> 'v \<Rightarrow> 'v" where
  "dict_get d k dflt = (case map_of d k of None \<Rightarrow> dflt | Some v \<Rightarrow> v)"

subsection \<open>\<^verbatim>\<open>voice_mapper.py\<close>\<close>

record VoiceParams =
  rate :: int
  pitch :: rat
  volume :: rat

definition BASELINE_RATE :: int where "BASELINE_RATE = 200"
definition BASELINE_PITCH :: rat where "BASELINE_PITCH = 1"
definition BASELINE_VOLUME :: rat where "BASELINE_VOLUME = 85 / 100"

text \<open>The profile of an emotion: \<open>(rate_delta, pitch_mult, vol_delta)\<close>.\<close>

definition EMOTION_PROFILE :: "(string, int \<times> rat \<times> rat) dict" where
  "EMOTION_PROFILE =
    [(''joy'',         ( 60, 135 / 100,   15 / 100)),
     (''sadness'',     (-50,  78 / 100, -(15 / 100))),
     (''anger'',       ( 40, 122 / 100,   15 / 100)),
     (''surprise'',    ( 70, 145 / 100,   10 / 100)),
     (''fear'',        ( 50, 118 / 100, -(10 / 100))),
     (''disgust'',     (-20,  88 / 100, -(5 / 100))),
     (''neutral'',     (  0,         1,          0)),
     (''inquisitive'', ( 15, 120 / 100,    5 / 100)),
     (''concerned'',   (-15,  92 / 100, -(5 / 100))),
     (''excited'',     ( 65, 140 / 100,   15 / 100)),
     (''calm'',        (-30,  90 / 100, -(10 / 100)))]"

record VoiceMapper =
  baseline_rate :: int
  baseline_pitch :: rat
  baseline_volume :: rat

text \<open>\<^verbatim>\<open>VoiceMapper()\<close> with the default arguments.\<close>

definition VoiceMapper_init :: VoiceMapper where
  "VoiceMapper_init =
     \<lparr>baseline_rate = BASELINE_RATE, baseline_pitch = BASELINE_PITCH,
      baseline_volume = BASELINE_VOLUME\<rparr>"

text \<open>\<^verbatim>\<open>int(x)\<close> of a float: truncation toward zero.\<close>

definition py_int :: "rat \<Rightarrow> int" where
  "py_int x = (if 0 \<le> x then \<lfloor>x\<rfloor> else \<lceil>x\<rceil>)"

text \<open>
  \<^verbatim>\<open>VoiceMapper.map\<close>. The default of the \<^verbatim>\<open>get\<close>, \<^verbatim>\<open>EMOTION_PROFILE["neutral"]\<close>, is
  evaluated before the lookup and is the only place where the function can raise.
\<close>

definition map_voice :: "VoiceMapper \<Rightarrow> string \<Rightarrow> rat \<Rightarrow> error + VoiceParams" where
  "map_voice self emotion intensity0 =
     (let intensity = max 0 (min 1 intensity0) in
      case dict_index EMOTION_PROFILE ''neutral'' of
        Inl e \<Rightarrow> Inl e
      | Inr neutral \<Rightarrow>
          (case dict_get EMOTION_PROFILE emotion neutral of
             (rate_delta, pitch_mult, vol_delta) \<Rightarrow>
               Inr \<lparr>rate = py_int (of_int (baseline_rate self) + of_int rate_delta * intensity),
                    pitch = baseline_pitch self + (pitch_mult - baseline_pitch self) * intensity,
                    volume = max (1 / 10)
                               (min 1 (baseline_volume self + vol_delta * intensity))\<rparr>))"

subsection \<open>Number formatting used by \<^verbatim>\<open>explain\<close> and \<^verbatim>\<open>to_dict\<close>\<close>

definition digit_char :: "nat \<Rightarrow> char" where
  "digit_char d = ''0123456789'' ! (d mod 10)"

text \<open>\<^verbatim>\<open>str(n)\<close> for a natural number.\<close>

fun str_nat :: "nat \<Rightarrow> string" where
  "str_nat n = (if n < 10 then [digit_char n] else str_nat (n div 10) @ [digit_char (n mod 10)])"

declare str_nat.simps [simp del]

text \<open>\<^verbatim>\<open>str(i)\<close> and the format \<^verbatim>\<open>{i:+d}\<close> for an integer.\<close>

definition str_int :: "int \<Rightarrow> string" where
  "str_int i = (if i < 0 then ''-'' else '''') @ str_nat (nat \<bar>i\<bar>)"

definition fmt_plus_d :: "int \<Rightarrow> string" where
  "fmt_plus_d i = (if i < 0 then ''-'' else ''+'') @ str_nat (nat \<bar>i\<bar>)"

text \<open>Rounding to the nearest integer, ties to the even one.\<close>

definition round_half_even :: "rat \<Rightarrow> int" where
  "round_half_even x =
     (let f = \<lfloor>x\<rfloor>; d = x - of_int f
      in if d < 1 / 2 then f else if 1 / 2 < d then f + 1 else if even f then f else f + 1)"

text \<open>\<^verbatim>\<open>round(x, p)\<close>.\<close>

definition py_round :: "rat \<Rightarrow> nat \<Rightarrow> rat" where
  "py_round x p = of_int (round_half_even (x * 10 ^ p)) / 10 ^ p"

definition zero_pad :: "nat \<Rightarrow> string \<Rightarrow> string" where
  "zero_pad w s = replicate (w - length s) (CHR ''0'') @ s"

text \<open>
  The formats \<^verbatim>\<open>{x:.pf}\<close>, \<^verbatim>\<open>{x:+.pf}\<close> and \<^verbatim>\<open>{x:.p%}\<close> for \<open>p > 0\<close>: the sign of
  \<open>x\<close>, then \<open>\<bar>x\<bar>\<close> rounded to \<open>p\<close> decimals.
\<close>

definition fixed_digits :: "nat \<Rightarrow> rat \<Rightarrow> string" where
  "fixed_digits p x =
     (let n = nat (round_half_even (\<bar>x\<bar> * 10 ^ p))
      in str_nat (n div 10 ^ p) @ ''.'' @ zero_pad p (str_nat (n mod 10 ^ p)))"

definition fmt_f :: "nat \<Rightarrow> rat \<Rightarrow> string" where
  "fmt_f p x = (if x < 0 then ''-'' else '''') @ fixed_digits p x"

definition fmt_plus_f :: "nat \<Rightarrow> rat \<Rightarrow> string" where
  "fmt_plus_f p x = (if x < 0 then ''-'' else ''+'') @ fixed_digits p x"

definition fmt_percent :: "nat \<Rightarrow> rat \<Rightarrow> string" where
  "fmt_percent p x = fmt_f p (x * 100) @ ''%''"

text \<open>The multiplication sign U+00D7, two bytes in UTF-8.\<close>

definition times_sign :: string where
  "times_sign = [CHR 0xC3, CHR 0x97]"

text \<open>\<^verbatim>\<open>sep.join(lines)\<close>.\<close>

fun join :: "string \<Rightarrow> string list \<Rightarrow> string" where
  "join sep [] = []"
| "join sep [l] = l"
| "join sep (l # ls) = l @ sep @ join sep ls"

text \<open>
  \<^verbatim>\<open>VoiceMapper.explain\<close>: the list \<^verbatim>\<open>lines\<close>, then the joined text. \<open>repr\<close> is the
  \<^verbatim>\<open>repr\<close> of a float (the shortest decimal that reads back as the same float), which
  the f-strings apply to \<^verbatim>\<open>baseline_pitch\<close>, \<^verbatim>\<open>pitch_mult\<close> and \<^verbatim>\<open>baseline_volume\<close>.
  The intensity that is printed is the argument, not the clamped one.
\<close>

definition explain_lines ::
  "(rat \<Rightarrow> string) \<Rightarrow> VoiceMapper \<Rightarrow> string \<Rightarrow> rat \<Rightarrow> error + string list" where
  "explain_lines repr self emotion intensity =
     (case map_voice self emotion intensity of
        Inl e \<Rightarrow> Inl e
      | Inr params \<Rightarrow>
          (case dict_index EMOTION_PROFILE ''neutral'' of
             Inl e \<Rightarrow> Inl e
           | Inr neutral \<Rightarrow>
               (case dict_get EMOTION_PROFILE emotion neutral of
                  (rate_delta, pitch_mult, vol_delta) \<Rightarrow>
                    Inr [''Emotion:   '' @ emotion,
                         ''Intensity: '' @ fmt_percent 1 intensity,
                         '''',
                         ''Voice Parameters (intensity-scaled):'',
                         ''  Rate:   '' @ str_int (rate params) @ '' wpm  (baseline ''
                           @ str_int (baseline_rate self) @ '', delta ''
                           @ fmt_plus_d rate_delta @ '' '' @ times_sign @ '' ''
                           @ fmt_f 2 intensity @ '')'',
                         ''  Pitch:  '' @ fmt_f 2 (pitch params) @ times_sign
                           @ ''  (baseline '' @ repr (baseline_pitch self) @ '', target ''
                           @ repr pitch_mult @ times_sign @ '' '' @ times_sign @ '' ''
                           @ fmt_f 2 intensity @ '')'',
                         ''  Volume: '' @ fmt_f 2 (volume params) @ ''  (baseline ''
                           @ repr (baseline_volume self) @ '', delta ''
                           @ fmt_plus_f 2 vol_delta @ '' '' @ times_sign @ '' ''
                           @ fmt_f 2 intensity @ '')''])))"

definition explain ::
  "(rat \<Rightarrow> string) \<Rightarrow> VoiceMapper \<Rightarrow> string \<Rightarrow> rat \<Rightarrow> error + string" where
  "explain repr self emotion intensity =
     (case explain_lines repr self emotion intensity of
        Inl e \<Rightarrow> Inl e
      | Inr lines \<Rightarrow> Inr (join [CHR 10] lines))"

subsection \<open>\<^verbatim>\<open>emotion_detector.py\<close>\<close>

definition HF_LABEL_MAP :: "(string, string) dict" where
  "HF_LABEL_MAP =
    [(''joy'', ''joy''), (''sadness'', ''sadness''), (''anger'', ''anger''),
     (''surprise'', ''surprise''), (''fear'', ''fear''), (''disgust'', ''disgust''),
     (''neutral'', ''neutral'')]"

definition VADER_POLARITY_MAP :: "(string, string) dict" where
  "VADER_POLARITY_MAP =
    [(''positive'', ''joy''), (''negative'', ''sadness''), (''neutral'', ''neutral'')]"

text \<open>The field \<^verbatim>\<open>text\<close> of the source is \<open>input_text\<close> here.\<close>

record EmotionResult =
  input_text :: string
  primary_emotion :: string
  intensity :: rat
  granular_label :: string
  vader_scores :: "(string, rat) dict"
  hf_scores :: "(string, rat) dict"

text \<open>
  The detector object. \<open>vader\<close> is \<^verbatim>\<open>self.vader.polarity_scores\<close>; \<open>hf_classifier\<close> is
  \<^verbatim>\<open>None\<close> or the loaded pipeline, which returns for a text a list holding one list
  of (label, score) entries. Either collaborator may raise.
\<close>

type_synonym classifier = "string \<Rightarrow> error + (string \<times> rat) list list"

record EmotionDetector =
  vader :: "string \<Rightarrow> error + (string, rat) dict"
  hf_classifier :: "classifier option"

text \<open>
  \<^verbatim>\<open>EmotionDetector.__init__\<close>: \<open>load\<close> is the outcome of the call of \<^verbatim>\<open>hf_pipeline\<close>,
  whose exception the constructor catches.
\<close>

definition EmotionDetector_init ::
  "(string \<Rightarrow> error + (string, rat) dict) \<Rightarrow> bool \<Rightarrow> error + classifier \<Rightarrow> bool
     \<Rightarrow> EmotionDetector" where
  "EmotionDetector_init analyzer HF_AVAILABLE load use_hf =
     \<lparr>vader = analyzer,
      hf_classifier =
        (if use_hf \<and> HF_AVAILABLE
         then (case load of Inl exc \<Rightarrow> None | Inr c \<Rightarrow> Some c)
         else None)\<rparr>"

definition vader_analyse :: "EmotionDetector \<Rightarrow> string \<Rightarrow> error + (string, rat) dict" where
  "vader_analyse self txt = vader self txt"

definition vader_polarity :: "(string, rat) dict \<Rightarrow> error + string" where
  "vader_polarity scores =
     (case dict_index scores ''compound'' of
        Inl e \<Rightarrow> Inl e
      | Inr compound \<Rightarrow>
          if compound \<ge> 5 / 100 then Inr ''positive''
          else if compound \<le> - (5 / 100) then Inr ''negative''
          else Inr ''neutral'')"

definition compute_intensity :: "(string, rat) dict \<Rightarrow> error + rat" where
  "compute_intensity scores =
     (case dict_index scores ''compound'' of
        Inl e \<Rightarrow> Inl e
      | Inr compound \<Rightarrow> Inr (min (\<bar>compound\<bar> * (12 / 10)) 1))"

text \<open>
  The dict comprehension \<^verbatim>\<open>{r["label"]: r["score"] for r in results}\<close>: a label seen
  again keeps its place and takes the later score.
\<close>

definition scores_of :: "(string \<times> rat) list \<Rightarrow> (string, rat) dict" where
  "scores_of results = foldl (\<lambda>d r. AList.update (fst r) (snd r) d) [] results"

text \<open>
  \<^verbatim>\<open>max(scores, key=scores.get)\<close> walks the keys in order and keeps the first one
  whose score is the greatest; on an empty dict it raises \<^verbatim>\<open>ValueError\<close>.
\<close>

fun max_item :: "string \<times> rat \<Rightarrow> (string \<times> rat) list \<Rightarrow> string \<times> rat" where
  "max_item best [] = best"
| "max_item best (x # xs) = max_item (if snd best < snd x then x else best) xs"

definition max_key :: "(string, rat) dict \<Rightarrow> error + string" where
  "max_key scores =
     (case scores of
        [] \<Rightarrow> Inl (ValueError ''max() iterable argument is empty'')
      | kv # rest \<Rightarrow> Inr (fst (max_item kv rest)))"

definition hf_analyse :: "classifier \<Rightarrow> string \<Rightarrow> error + (string, rat) dict \<times> string" where
  "hf_analyse clf txt =
     (case clf txt of
        Inl e \<Rightarrow> Inl e
      | Inr [] \<Rightarrow> Inl (IndexError ''list index out of range'')
      | Inr (results # others) \<Rightarrow>
          (let scores = scores_of results in
           case max_key scores of
             Inl e \<Rightarrow> Inl e
           | Inr top_label \<Rightarrow> Inr (scores, top_label)))"

definition detect :: "EmotionDetector \<Rightarrow> string \<Rightarrow> error + EmotionResult" where
  "detect self txt =
     (case vader_analyse self txt of
        Inl e \<Rightarrow> Inl e
      | Inr vscores \<Rightarrow>
     (case compute_intensity vscores of
        Inl e \<Rightarrow> Inl e
      | Inr intens \<Rightarrow>
     (case hf_classifier self of
        Some clf \<Rightarrow>
          (case hf_analyse clf txt of
             Inl e \<Rightarrow> Inl e
           | Inr (hscores, glabel) \<Rightarrow>
               Inr \<lparr>input_text = txt,
                    primary_emotion = dict_get HF_LABEL_MAP glabel glabel,
                    intensity = intens,
                    granular_label = glabel,
                    vader_scores = vscores,
                    hf_scores = hscores\<rparr>)
      | None \<Rightarrow>
          (case vader_polarity vscores of
             Inl e \<Rightarrow> Inl e
           | Inr polarity \<Rightarrow>
               (case dict_index VADER_POLARITY_MAP polarity of
                  Inl e \<Rightarrow> Inl e
                | Inr primary \<Rightarrow>
                    Inr \<lparr>input_text = txt,
                         primary_emotion = primary,
                         intensity = intens,
                         granular_label = primary,
                         vader_scores = vscores,
                         hf_scores = []\<rparr>)))))"

text \<open>\<^verbatim>\<open>EmotionResult.to_dict\<close> and \<^verbatim>\<open>VoiceParams.to_dict\<close>: the values rounded for display.\<close>

definition EmotionResult_to_dict :: "EmotionResult \<Rightarrow> EmotionResult" where
  "EmotionResult_to_dict r =
     \<lparr>input_text = input_text r,
      primary_emotion = primary_emotion r,
      intensity = py_round (intensity r) 3,
      granular_label = granular_label r,
      vader_scores = map (\<lambda>(k, v). (k, py_round v 3)) (vader_scores r),
      hf_scores = map (\<lambda>(k, v). (k, py_round v 3)) (hf_scores r)\<rparr>"

definition VoiceParams_to_dict :: "VoiceParams \<Rightarrow> VoiceParams" where
  "VoiceParams_to_dict p =
     \<lparr>rate = rate p, pitch = py_round (pitch p) 2, volume = py_round (volume p) 2\<rparr>"

subsection \<open>\<^verbatim>\<open>tts_engine.py\<close>\<close>

text \<open>The audio files on disk, as the list of their paths in the order of creation.\<close>

type_synonym files = "string list"

type_synonym backend_fn =
  "string \<Rightarrow> VoiceParams \<Rightarrow> string \<Rightarrow> files \<Rightarrow> (error + string) \<times> files"

text \<open>
  What the program takes from its surroundings: the platform test, the output
  directory, the three back-end routines (each runs external processes or a network
  service, returns the path of the audio file or raises, and may write files), the
  sentiment analyser, the availability and the loading of the classifier pipeline,
  the \<^verbatim>\<open>repr\<close> of a float, and \<^verbatim>\<open>str.lower\<close> (the lower-casing of a text by the
  case tables of Unicode).
\<close>

record Platform =
  is_macos :: bool
  OUTPUT_DIR :: string
  synthesize_macos_say :: backend_fn
  synthesize_pyttsx3 :: backend_fn
  synthesize_gtts :: backend_fn
  analyzer :: "string \<Rightarrow> error + (string, rat) dict"
  HF_AVAILABLE :: bool
  hf_pipeline :: "error + classifier"
  float_repr :: "rat \<Rightarrow> string"
  str_lower :: "string \<Rightarrow> string"

record TTSEngine =
  backend :: string

definition TTSEngine_init :: "Platform \<Rightarrow> string \<Rightarrow> TTSEngine" where
  "TTSEngine_init pf b =
     (if b = ''auto''
      then \<lparr>backend = (if is_macos pf then ''macos_say'' else ''pyttsx3'')\<rparr>
      else \<lparr>backend = str_lower pf b\<rparr>)"

text \<open>
  \<^verbatim>\<open>TTSEngine.synthesize\<close>. \<open>uid\<close> is the hexadecimal text of the \<^verbatim>\<open>uuid4()\<close> that
  the call draws when no output path is given.
\<close>

definition synthesize ::
  "Platform \<Rightarrow> TTSEngine \<Rightarrow> string \<Rightarrow> VoiceParams \<Rightarrow> string option \<Rightarrow> string \<Rightarrow> files
     \<Rightarrow> (error + string) \<times> files" where
  "synthesize pf self txt params output_path0 uid fs =
     (let output_path =
            (case output_path0 of
               None \<Rightarrow>
                 (let ext = (if backend self = ''gtts'' then ''.mp3'' else ''.wav'')
                  in OUTPUT_DIR pf @ ''/'' @ ''empathy_'' @ take 8 uid @ ext)
             | Some path \<Rightarrow> path)
      in if backend self = ''macos_say'' then synthesize_macos_say pf txt params output_path fs
         else if backend self = ''pyttsx3'' then synthesize_pyttsx3 pf txt params output_path fs
         else if backend self = ''gtts'' then synthesize_gtts pf txt params output_path fs
         else (Inl (ValueError (''Unknown TTS backend: '' @ backend self)), fs))"

subsection \<open>\<^verbatim>\<open>engine.py\<close>\<close>

record EmpathyEngine =
  detector :: EmotionDetector
  mapper :: VoiceMapper
  tts :: TTSEngine

definition EmpathyEngine_init :: "Platform \<Rightarrow> string \<Rightarrow> bool \<Rightarrow> EmpathyEngine" where
  "EmpathyEngine_init pf tts_backend use_hf =
     \<lparr>detector = EmotionDetector_init (analyzer pf) (HF_AVAILABLE pf) (hf_pipeline pf) use_hf,
      mapper = VoiceMapper_init,
      tts = TTSEngine_init pf tts_backend\<rparr>"

text \<open>The dict that \<^verbatim>\<open>process\<close> returns, without \<^verbatim>\<open>time_ms\<close> (the clock is not modelled).\<close>

record ProcessResult =
  emotion :: EmotionResult
  voice :: VoiceParams
  mapping :: string
  audio :: string

definition process ::
  "Platform \<Rightarrow> EmpathyEngine \<Rightarrow> string \<Rightarrow> string option \<Rightarrow> string \<Rightarrow> files
     \<Rightarrow> (error + ProcessResult) \<times> files" where
  "process pf self txt output_path uid fs =
     (case detect (detector self) txt of
        Inl e \<Rightarrow> (Inl e, fs)
      | Inr emo \<Rightarrow>
     (case map_voice (mapper self) (primary_emotion emo) (intensity emo) of
        Inl e \<Rightarrow> (Inl e, fs)
      | Inr voice_params \<Rightarrow>
     (case explain (float_repr pf) (mapper self) (primary_emotion emo) (intensity emo) of
        Inl e \<Rightarrow> (Inl e, fs)
      | Inr mapping_explanation \<Rightarrow>
     (case synthesize pf (tts self) txt voice_params output_path uid fs of
        (Inl e, fs') \<Rightarrow> (Inl e, fs')
      | (Inr audio_path, fs') \<Rightarrow>
          (Inr \<lparr>emotion = EmotionResult_to_dict emo,
                voice = VoiceParams_to_dict voice_params,
                mapping = mapping_explanation,
                audio = audio_path\<rparr>, fs')))))"

subsection \<open>\<^verbatim>\<open>web/app.py\<close>: the route \<^verbatim>\<open>/synthesize\<close>\<close>

text \<open>
  The state of the server process: the module variable \<^verbatim>\<open>_engine\<close> and the audio
  files on disk.
\<close>

record AppState =
  engine_global :: "EmpathyEngine option"
  audio_files :: files

definition get_engine :: "Platform \<Rightarrow> AppState \<Rightarrow> EmpathyEngine \<times> AppState" where
  "get_engine pf st =
     (case engine_global st of
        None \<Rightarrow>
          (let e = EmpathyEngine_init pf ''auto'' True
           in (e, st\<lparr>engine_global := Some e\<rparr>))
      | Some e \<Rightarrow> (e, st))"

text \<open>
  \<^verbatim>\<open>str.strip\<close>: the white space of Python (the code points for which \<^verbatim>\<open>str.isspace\<close>
  holds), each as the bytes of its UTF-8 encoding, is removed from both ends.
\<close>

definition WHITESPACE :: "string list" where
  "WHITESPACE =
     [[CHR 0x09], [CHR 0x0A], [CHR 0x0B], [CHR 0x0C], [CHR 0x0D],
      [CHR 0x1C], [CHR 0x1D], [CHR 0x1E], [CHR 0x1F], [CHR 0x20],
      [CHR 0xC2, CHR 0x85], [CHR 0xC2, CHR 0xA0],
      [CHR 0xE1, CHR 0x9A, CHR 0x80],
      [CHR 0xE2, CHR 0x80, CHR 0x80], [CHR 0xE2, CHR 0x80, CHR 0x81],
      [CHR 0xE2, CHR 0x80, CHR 0x82], [CHR 0xE2, CHR 0x80, CHR 0x83],
      [CHR 0xE2, CHR 0x80, CHR 0x84], [CHR 0xE2, CHR 0x80, CHR 0x85],
      [CHR 0xE2, CHR 0x80, CHR 0x86], [CHR 0xE2, CHR 0x80, CHR 0x87],
      [CHR 0xE2, CHR 0x80, CHR 0x88], [CHR 0xE2, CHR 0x80, CHR 0x89],
      [CHR 0xE2, CHR 0x80, CHR 0x8A], [CHR 0xE2, CHR 0x80, CHR 0xA8],
      [CHR 0xE2, CHR 0x80, CHR 0xA9], [CHR 0xE2, CHR 0x80, CHR 0xAF],
      [CHR 0xE2, CHR 0x81, CHR 0x9F],
      [CHR 0xE3, CHR 0x80, CHR 0x80]]"

definition leading :: "string list \<Rightarrow> string \<Rightarrow> string option" where
  "leading ws s = find (\<lambda>w. w \<noteq> [] \<and> take (length w) s = w) ws"

function strip_leading :: "string list \<Rightarrow> string \<Rightarrow> string" where
  "strip_leading ws s =
     (case leading ws s of
        None \<Rightarrow> s
      | Some w \<Rightarrow> strip_leading ws (drop (length w) s))"
  by pat_completeness auto
termination
proof (relation "measure (\<lambda>(ws, s). length s)")
  show "wf (measure (\<lambda>(ws, s). length s))" by simp
next
  fix ws :: "string list" and s w :: string
  assume "leading ws s = Some w"
  then have "w \<noteq> []" and "take (length w) s = w"
    by (auto simp add: leading_def find_Some_iff)
  then have "s \<noteq> []" by auto
  with \<open>w \<noteq> []\<close> show "((ws, drop (length w) s), (ws, s)) \<in> measure (\<lambda>(ws, s). length s)"
    by simp
qed

declare strip_leading.simps [simp del]

definition py_strip :: "string \<Rightarrow> string" where
  "py_strip s = rev (strip_leading (map rev WHITESPACE) (rev (strip_leading WHITESPACE s)))"

text \<open>\<^verbatim>\<open>os.path.basename\<close>.\<close>

definition basename :: "string \<Rightarrow> string" where
  "basename path = rev (takeWhile (\<lambda>c. c \<noteq> CHR ''/'') (rev path))"

text \<open>\<^verbatim>\<open>str(exc)\<close>: the message; for a \<^verbatim>\<open>KeyError\<close> the key in quotes.\<close>

definition str_exc :: "error \<Rightarrow> string" where
  "str_exc e =
     (case e of
        KeyError k \<Rightarrow> [CHR 0x27] @ k @ [CHR 0x27]
      | IndexError msg \<Rightarrow> msg
      | ValueError msg \<Rightarrow> msg
      | RuntimeError msg \<Rightarrow> msg)"

datatype Body =
    ErrorBody string
  | ResultBody ProcessResult string

record Response =
  status :: nat
  body :: Body

text \<open>
  The view function. \<open>data\<close> is the JSON object of the request (\<^verbatim>\<open>{}\<close> when the body
  is missing or not JSON) with text-valued members; the assignment to
  \<^verbatim>\<open>engine.tts.backend\<close> writes to the one engine object that \<^verbatim>\<open>_engine\<close> names.
\<close>

definition synthesize_route ::
  "Platform \<Rightarrow> (string, string) dict \<Rightarrow> string \<Rightarrow> AppState \<Rightarrow> Response \<times> AppState" where
  "synthesize_route pf data uid st =
     (let txt = py_strip (dict_get data ''text'' '''') in
      if txt = '''' then (\<lparr>status = 400, body = ErrorBody ''Please provide some text.''\<rparr>, st)
      else
        (let backend_req = dict_get data ''engine'' ''pyttsx3'';
             (engine0, st1) = get_engine pf st;
             engine = engine0\<lparr>tts := (tts engine0)\<lparr>backend := backend_req\<rparr>\<rparr>;
             st2 = st1\<lparr>engine_global := Some engine\<rparr>
         in case process pf engine txt None uid (audio_files st2) of
              (Inl exc, fs') \<Rightarrow>
                (\<lparr>status = 500, body = ErrorBody (str_exc exc)\<rparr>, st2\<lparr>audio_files := fs'\<rparr>)
            | (Inr result, fs') \<Rightarrow>
                (\<lparr>status = 200,
                  body = ResultBody result (''/audio/'' @ basename (audio result))\<rparr>,
                 st2\<lparr>audio_files := fs'\<rparr>)))"

subsection \<open>Reading the numbers of an explanation back\<close>

text \<open>
  The reader against which the explanation is measured: it takes the list of lines,
  finds the numeral that follows the label of the rate, pitch and volume lines, and
  reads it as a decimal number.
\<close>

definition is_digit :: "char \<Rightarrow> bool" where
  "is_digit c = (c \<in> set ''0123456789'')"

definition digit_value :: "char \<Rightarrow> nat" where
  "digit_value c = of_char c - 48"

fun parse_digits :: "nat \<Rightarrow> string \<Rightarrow> nat option" where
  "parse_digits acc [] = Some acc"
| "parse_digits acc (c # cs) =
     (if is_digit c then parse_digits (10 * acc + digit_value c) cs else None)"

definition parse_nat :: "string \<Rightarrow> nat option" where
  "parse_nat s = (if s = [] then None else parse_digits 0 s)"

definition parse_int :: "string \<Rightarrow> int option" where
  "parse_int s =
     (if s \<noteq> [] \<and> hd s = CHR ''-'' then map_option (\<lambda>n. - int n) (parse_nat (tl s))
      else map_option int (parse_nat s))"

definition parse_decimal :: "string \<Rightarrow> rat option" where
  "parse_decimal s =
     (let neg = (s \<noteq> [] \<and> hd s = CHR ''-'');
          digits = (if neg then tl s else s);
          ip = takeWhile (\<lambda>c. c \<noteq> CHR ''.'') digits;
          rest = dropWhile (\<lambda>c. c \<noteq> CHR ''.'') digits
      in case rest of
           [] \<Rightarrow> None
         | dot # fp \<Rightarrow>
             (case (parse_nat ip, parse_nat fp) of
                (Some a, Some b) \<Rightarrow>
                  Some ((if neg then - 1 else 1) * (of_nat a + of_nat b / 10 ^ length fp))
              | _ \<Rightarrow> None))"

definition is_numeral_char :: "char \<Rightarrow> bool" where
  "is_numeral_char c = (c \<in> set ''+-.0123456789'')"

definition numeral_after :: "string \<Rightarrow> string \<Rightarrow> string option" where
  "numeral_after label line =
     (if take (length label) line = label
      then Some (takeWhile is_numeral_char (drop (length label) line))
      else None)"

definition reparse :: "string list \<Rightarrow> VoiceParams option" where
  "reparse ls =
     (if length ls = 7
      then (case (Option.bind (numeral_after ''  Rate:   '' (ls ! 4)) parse_int,
                  Option.bind (numeral_after ''  Pitch:  '' (ls ! 5)) parse_decimal,
                  Option.bind (numeral_after ''  Volume: '' (ls ! 6)) parse_decimal) of
              (Some r, Some p, Some v) \<Rightarrow> Some \<lparr>rate = r, pitch = p, volume = v\<rparr>
            | _ \<Rightarrow> None)
      else None)"

subsection \<open>Example collaborators\<close>

text \<open>
  Concrete collaborators on which the theorems below are instantiated: a scorer that
  returns a fixed compound score, a scorer whose call raises, a classifier that
  returns a fixed list of scores, a classifier whose call raises, a back end that
  writes the requested file, a \<^verbatim>\<open>repr\<close> that prints a terminating decimal, the
  lower-casing of a text of ASCII characters, and a platform made of them.
\<close>

definition scorer_const :: "rat \<Rightarrow> string \<Rightarrow> error + (string, rat) dict" where
  "scorer_const c txt = Inr [(''neg'', 0), (''neu'', 1), (''pos'', 0), (''compound'', c)]"

definition scorer_failing :: "error \<Rightarrow> string \<Rightarrow> error + (string, rat) dict" where
  "scorer_failing exc txt = Inl exc"

definition classifier_const :: "(string \<times> rat) list \<Rightarrow> classifier" where
  "classifier_const results txt = Inr [results]"

definition classifier_failing :: "error \<Rightarrow> classifier" where
  "classifier_failing exc txt = Inl exc"

definition backend_writes :: backend_fn where
  "backend_writes txt params path fs = (Inr path, fs @ [path])"

fun frac_digits :: "nat \<Rightarrow> rat \<Rightarrow> string" where
  "frac_digits 0 r = []"
| "frac_digits (Suc k) r =
     (if r = 0 then []
      else digit_char (nat \<lfloor>r * 10\<rfloor>) # frac_digits k (r * 10 - of_int \<lfloor>r * 10\<rfloor>))"

definition repr_decimal :: "rat \<Rightarrow> string" where
  "repr_decimal x =
     (let a = \<bar>x\<bar>; fr = frac_digits 17 (a - of_int \<lfloor>a\<rfloor>)
      in (if x < 0 then ''-'' else '''') @ str_nat (nat \<lfloor>a\<rfloor>) @ ''.''
           @ (if fr = [] then ''0'' else fr))"

definition lower_char :: "char \<Rightarrow> char" where
  "lower_char c =
     (let n = (of_char c :: nat) in if 65 \<le> n \<and> n \<le> 90 then char_of (n + 32) else c)"

definition ascii_lower :: "string \<Rightarrow> string" where
  "ascii_lower s = map lower_char s"

definition demo_platform :: Platform where
  "demo_platform =
     \<lparr>is_macos = False,
      OUTPUT_DIR = ''/srv/empathy/output'',
      synthesize_macos_say = backend_writes,
      synthesize_pyttsx3 = backend_writes,
      synthesize_gtts = backend_writes,
      analyzer = scorer_const (1 / 2),
      HF_AVAILABLE = False,
      hf_pipeline = Inl (RuntimeError ''transformers is not installed''),
      float_repr = repr_decimal,
      str_lower = ascii_lower\<rparr>"

section \<open>Properties\<close>

subsection \<open>The voice mapper\<close>

lemma neutral_profile: "dict_index EMOTION_PROFILE ''neutral'' = Inr (0, 1, 0)"
  by (simp add: dict_index_def EMOTION_PROFILE_def)

lemma map_voice_eq:
  "map_voice m e i =
     (case dict_get EMOTION_PROFILE e (0, 1, 0) of
        (rd, pt, vd) \<Rightarrow>
          Inr \<lparr>rate = py_int (of_int (baseline_rate m) + of_int rd * max 0 (min 1 i)),
               pitch = baseline_pitch m + (pt - baseline_pitch m) * max 0 (min 1 i),
               volume = max (1 / 10) (min 1 (baseline_volume m + vd * max 0 (min 1 i)))\<rparr>)"
  by (simp add: map_voice_def neutral_profile Let_def)

lemma dict_get_absent: "k \<notin> fst ` set d \<Longrightarrow> dict_get d k dflt = dflt"
  by (simp add: dict_get_def map_of_eq_None_iff[THEN iffD2])

lemma volume_clamp: "(1 / 10 :: rat) \<le> max (1 / 10) (min 1 x) \<and> max (1 / 10) (min 1 x) \<le> 1"
  by simp

text \<open>
  C4. For an emotion of the profile table with pitch target \<open>pt\<close> and an intensity
  \<open>i\<close> in \<open>[0, 1]\<close>, \<^verbatim>\<open>map\<close> returns parameters whose pitch is
  \<open>baseline_pitch + (pt - baseline_pitch) * i\<close>: the interpolation runs toward the
  target multiplier itself. With the default baselines, \<^verbatim>\<open>map("joy", 0.5)\<close> has pitch
  \<open>1.0 + (1.35 - 1.0) * 0.5 = 1.175\<close>.
\<close>

theorem map_pitch_interpolates:
  "(map_of EMOTION_PROFILE emo = Some (rd, pt, vd) \<and> 0 \<le> i \<and> i \<le> 1 \<longrightarrow>
      (\<exists>p. map_voice m emo i = Inr p \<and>
           pitch p = baseline_pitch m + (pt - baseline_pitch m) * i))
   \<and> map_of EMOTION_PROFILE ''joy'' = Some (60, 135 / 100, 15 / 100)
   \<and> (\<exists>p. map_voice VoiceMapper_init ''joy'' (1 / 2) = Inr p \<and>
           pitch p = 1 + (135 / 100 - 1) * (1 / 2) \<and> pitch p = 1175 / 1000)"
proof (intro conjI impI)
  assume "map_of EMOTION_PROFILE emo = Some (rd, pt, vd) \<and> 0 \<le> i \<and> i \<le> 1"
  then show "\<exists>p. map_voice m emo i = Inr p \<and>
      pitch p = baseline_pitch m + (pt - baseline_pitch m) * i"
    by (simp add: map_voice_eq dict_get_def)
next
  show "map_of EMOTION_PROFILE ''joy'' = Some (60, 135 / 100, 15 / 100)"
    by (simp add: EMOTION_PROFILE_def)
next
  show "\<exists>p. map_voice VoiceMapper_init ''joy'' (1 / 2) = Inr p \<and>
      pitch p = 1 + (135 / 100 - 1) * (1 / 2) \<and> pitch p = 1175 / 1000"
    by (simp add: map_voice_eq dict_get_def EMOTION_PROFILE_def VoiceMapper_init_def
        BASELINE_PITCH_def)
qed

theorem map_pitch_interpolates_witness:
  "map_of EMOTION_PROFILE ''sadness'' = Some (- 50, 78 / 100, - (15 / 100)) \<and>
   (\<exists>p. map_voice VoiceMapper_init ''sadness'' (3 / 10) = Inr p \<and>
        pitch p = 1 + (78 / 100 - 1) * (3 / 10) \<and> pitch p = 934 / 1000)"
  using map_pitch_interpolates
    [of "''sadness''" "- 50" "78 / 100" "- (15 / 100)" "3 / 10" VoiceMapper_init]
  by (simp add: EMOTION_PROFILE_def VoiceMapper_init_def BASELINE_PITCH_def)

text \<open>
  C7. An emotion that is not a key of the profile table is mapped exactly as
  \<^verbatim>\<open>"neutral"\<close> at every intensity, and \<^verbatim>\<open>map\<close> returns parameters (raises nothing)
  for every emotion and every intensity.
\<close>

theorem map_unknown_is_neutral:
  "(emo \<notin> fst ` set EMOTION_PROFILE \<longrightarrow> map_voice m emo i = map_voice m ''neutral'' i)
   \<and> (\<exists>p. map_voice m emo i = Inr p)"
proof
  show "emo \<notin> fst ` set EMOTION_PROFILE \<longrightarrow> map_voice m emo i = map_voice m ''neutral'' i"
  proof
    assume "emo \<notin> fst ` set EMOTION_PROFILE"
    then have "dict_get EMOTION_PROFILE emo (0, 1, 0) = (0, 1, 0)"
      by (rule dict_get_absent)
    moreover have "dict_get EMOTION_PROFILE ''neutral'' (0, 1, 0) = (0, 1, 0)"
      by (simp add: dict_get_def EMOTION_PROFILE_def)
    ultimately show "map_voice m emo i = map_voice m ''neutral'' i"
      by (simp add: map_voice_eq)
  qed
  show "\<exists>p. map_voice m emo i = Inr p"
    by (simp add: map_voice_eq split: prod.split)
qed

theorem map_unknown_is_neutral_witness:
  "''love'' \<notin> fst ` set EMOTION_PROFILE \<and>
   map_voice VoiceMapper_init ''love'' (7 / 10) = map_voice VoiceMapper_init ''neutral'' (7 / 10) \<and>
   map_voice VoiceMapper_init ''love'' (7 / 10)
     = Inr \<lparr>rate = 200, pitch = 1, volume = 85 / 100\<rparr>"
proof -
  have absent: "''love'' \<notin> fst ` set EMOTION_PROFILE"
    by (simp add: EMOTION_PROFILE_def)
  have "map_voice VoiceMapper_init ''love'' (7 / 10)
          = map_voice VoiceMapper_init ''neutral'' (7 / 10)"
    using map_unknown_is_neutral [of "''love''" VoiceMapper_init "7 / 10"] absent by blast
  moreover have "map_voice VoiceMapper_init ''neutral'' (7 / 10)
          = Inr \<lparr>rate = 200, pitch = 1, volume = 85 / 100\<rparr>"
    by (simp add: map_voice_eq dict_get_def EMOTION_PROFILE_def VoiceMapper_init_def
        BASELINE_RATE_def BASELINE_PITCH_def BASELINE_VOLUME_def py_int_def)
  ultimately show ?thesis using absent by simp
qed

text \<open>
  C8. For every emotion and every intensity, inside \<open>[0, 1]\<close> or not, \<^verbatim>\<open>map\<close> returns
  parameters whose volume lies in \<open>[0.1, 1.0]\<close>.
\<close>

theorem map_volume_range:
  "\<exists>p. map_voice m emo i = Inr p \<and> 1 / 10 \<le> volume p \<and> volume p \<le> 1"
proof -
  obtain rd pt vd where prof: "dict_get EMOTION_PROFILE emo (0, 1, 0) = (rd, pt, vd)"
    by (cases "dict_get EMOTION_PROFILE emo (0, 1, 0)")
  let ?v = "max (1 / 10) (min 1 (baseline_volume m + vd * max 0 (min 1 i)))"
  let ?p = "\<lparr>rate = py_int (of_int (baseline_rate m) + of_int rd * max 0 (min 1 i)),
             pitch = baseline_pitch m + (pt - baseline_pitch m) * max 0 (min 1 i),
             volume = ?v\<rparr>"
  have "map_voice m emo i = Inr ?p"
    by (simp add: map_voice_eq prof)
  moreover have "1 / 10 \<le> volume ?p" and "volume ?p \<le> 1"
    using volume_clamp [of "baseline_volume m + vd * max 0 (min 1 i)"] by simp_all
  ultimately show ?thesis by blast
qed

subsection \<open>The emotion detector\<close>

lemma dict_index_Some: "map_of d k = Some v \<Longrightarrow> dict_index d k = Inr v"
  by (simp add: dict_index_def)

lemma polarity_lookup:
  "dict_index VADER_POLARITY_MAP ''positive'' = Inr ''joy''"
  "dict_index VADER_POLARITY_MAP ''negative'' = Inr ''sadness''"
  "dict_index VADER_POLARITY_MAP ''neutral'' = Inr ''neutral''"
  by (simp_all add: dict_index_def VADER_POLARITY_MAP_def)

text \<open>The two paths of \<^verbatim>\<open>detect\<close> once the scorer has returned a compound score.\<close>

lemma detect_classifier_path:
  assumes "hf_classifier d = Some clf" "vader d txt = Inr vs" "map_of vs ''compound'' = Some c"
  shows "detect d txt =
     (case hf_analyse clf txt of
        Inl e \<Rightarrow> Inl e
      | Inr (hs, g) \<Rightarrow>
          Inr \<lparr>input_text = txt, primary_emotion = dict_get HF_LABEL_MAP g g,
               intensity = min (\<bar>c\<bar> * (12 / 10)) 1, granular_label = g,
               vader_scores = vs, hf_scores = hs\<rparr>)"
  using assms
  by (simp add: detect_def vader_analyse_def compute_intensity_def dict_index_Some
      split: sum.splits prod.splits)

lemma detect_polarity_path:
  assumes "hf_classifier d = None" "vader d txt = Inr vs" "map_of vs ''compound'' = Some c"
  shows "detect d txt =
     Inr \<lparr>input_text = txt,
          primary_emotion = (if 5 / 100 \<le> c then ''joy''
                             else if c \<le> - (5 / 100) then ''sadness'' else ''neutral''),
          intensity = min (\<bar>c\<bar> * (12 / 10)) 1,
          granular_label = (if 5 / 100 \<le> c then ''joy''
                            else if c \<le> - (5 / 100) then ''sadness'' else ''neutral''),
          vader_scores = vs, hf_scores = []\<rparr>"
  using assms
  by (simp add: detect_def vader_analyse_def compute_intensity_def vader_polarity_def
      dict_index_Some polarity_lookup)

text \<open>The label that \<^verbatim>\<open>max\<close> picks is a key of the scores, with the greatest score.\<close>

lemma max_item_mem: "max_item b xs \<in> set (b # xs)"
  by (induction xs arbitrary: b) (auto split: if_splits)

lemma max_item_ge_best: "snd b \<le> snd (max_item b xs)"
proof (induction xs arbitrary: b)
  case Nil
  then show ?case by simp
next
  case (Cons x xs)
  have "snd b \<le> snd (if snd b < snd x then x else b)" by simp
  also have "\<dots> \<le> snd (max_item (if snd b < snd x then x else b) xs)" by (rule Cons.IH)
  finally show ?case by simp
qed

lemma max_item_greatest: "kv \<in> set (b # xs) \<Longrightarrow> snd kv \<le> snd (max_item b xs)"
proof (induction xs arbitrary: b)
  case Nil
  then show ?case by simp
next
  case (Cons x xs)
  let ?b' = "if snd b < snd x then x else b"
  from Cons.prems consider "kv = b" | "kv = x" | "kv \<in> set xs" by auto
  then show ?case
  proof cases
    case 1
    have "snd b \<le> snd ?b'" by simp
    also have "\<dots> \<le> snd (max_item ?b' xs)" by (rule max_item_ge_best)
    finally show ?thesis using 1 by simp
  next
    case 2
    have "snd x \<le> snd ?b'" by simp
    also have "\<dots> \<le> snd (max_item ?b' xs)" by (rule max_item_ge_best)
    finally show ?thesis using 2 by simp
  next
    case 3
    then have "kv \<in> set (?b' # xs)" by simp
    then have "snd kv \<le> snd (max_item ?b' xs)" by (rule Cons.IH)
    then show ?thesis by simp
  qed
qed

lemma max_key_greatest:
  assumes "max_key sc = Inr lbl"
  shows "\<exists>s. (lbl, s) \<in> set sc \<and> (\<forall>kv \<in> set sc. snd kv \<le> s)"
proof (cases sc)
  case Nil
  with assms show ?thesis by (simp add: max_key_def)
next
  case (Cons kv rest)
  with assms have lbl: "lbl = fst (max_item kv rest)" by (simp add: max_key_def)
  have "max_item kv rest \<in> set sc" using max_item_mem[of kv rest] Cons by simp
  then have "(lbl, snd (max_item kv rest)) \<in> set sc" using lbl by simp
  moreover have "\<forall>x \<in> set sc. snd x \<le> snd (max_item kv rest)"
    using max_item_greatest[of _ kv rest] Cons by blast
  ultimately show ?thesis by blast
qed

lemma hf_analyse_greatest:
  assumes "hf_analyse clf txt = Inr (sc, lbl)"
  shows "\<exists>s. (lbl, s) \<in> set sc \<and> (\<forall>kv \<in> set sc. snd kv \<le> s)"
proof -
  from assms have "max_key sc = Inr lbl"
    by (auto simp add: hf_analyse_def Let_def split: sum.splits list.splits)
  then show ?thesis by (rule max_key_greatest)
qed

text \<open>
  C5. Whenever the scorer returns scores with compound value \<open>c\<close>, the intensity is
  \<open>min (\<bar>c\<bar> * 1.2) 1\<close>: this is what \<^verbatim>\<open>_compute_intensity\<close> returns, it is the
  intensity of every result of \<^verbatim>\<open>detect\<close>, and without a classifier \<^verbatim>\<open>detect\<close> does
  return a result. A compound of 0.5 gives 0.6, of -1.0 gives 1.0, of 0 gives 0.
\<close>

theorem detect_intensity_formula:
  "(vader d txt = Inr vs \<and> map_of vs ''compound'' = Some c \<longrightarrow>
      compute_intensity vs = Inr (min (\<bar>c\<bar> * (12 / 10)) 1) \<and>
      (\<forall>r. detect d txt = Inr r \<longrightarrow> intensity r = min (\<bar>c\<bar> * (12 / 10)) 1) \<and>
      (hf_classifier d = None \<longrightarrow> (\<exists>r. detect d txt = Inr r)))
   \<and> compute_intensity [(''compound'', 1 / 2)] = Inr (6 / 10)
   \<and> compute_intensity [(''compound'', - 1)] = Inr 1
   \<and> compute_intensity [(''compound'', 0)] = Inr 0"
proof (intro conjI impI allI)
  assume a: "vader d txt = Inr vs \<and> map_of vs ''compound'' = Some c"
  then show "compute_intensity vs = Inr (min (\<bar>c\<bar> * (12 / 10)) 1)"
    by (simp add: compute_intensity_def dict_index_Some)
  show "intensity r = min (\<bar>c\<bar> * (12 / 10)) 1" if r: "detect d txt = Inr r" for r
  proof (cases "hf_classifier d")
    case None
    with a r show ?thesis by (auto simp add: detect_polarity_path)
  next
    case (Some clf)
    with a r show ?thesis
      by (auto simp add: detect_classifier_path split: sum.splits prod.splits)
  qed
  show "\<exists>r. detect d txt = Inr r" if "hf_classifier d = None"
    using that a by (simp add: detect_polarity_path)
qed (simp_all add: compute_intensity_def dict_index_def)

theorem detect_intensity_formula_witness:
  "vader \<lparr>vader = scorer_const (- (3 / 4)), hf_classifier = None\<rparr> ''what a mess''
     = Inr [(''neg'', 0), (''neu'', 1), (''pos'', 0), (''compound'', - (3 / 4))] \<and>
   compute_intensity [(''neg'', 0), (''neu'', 1), (''pos'', 0), (''compound'', - (3 / 4))]
     = Inr (9 / 10) \<and>
   (\<exists>r. detect \<lparr>vader = scorer_const (- (3 / 4)), hf_classifier = None\<rparr> ''what a mess'' = Inr r
        \<and> intensity r = 9 / 10)"
proof -
  let ?d = "\<lparr>vader = scorer_const (- (3 / 4)), hf_classifier = None\<rparr>"
  let ?vs = "[(''neg'', 0), (''neu'', 1), (''pos'', 0), (''compound'', - (3 / 4 :: rat))]"
  have v: "vader ?d ''what a mess'' = Inr ?vs" by (simp add: scorer_const_def)
  have c: "map_of ?vs ''compound'' = Some (- (3 / 4))" by simp
  have n: "hf_classifier ?d = None" by simp
  note t = detect_intensity_formula [of ?d "''what a mess''" ?vs "- (3 / 4)"]
  from t v c have i: "compute_intensity ?vs = Inr (min (\<bar>- (3 / 4 :: rat)\<bar> * (12 / 10)) 1)"
    by blast
  from t v c n obtain r where r: "detect ?d ''what a mess'' = Inr r" by blast
  with t v c have "intensity r = min (\<bar>- (3 / 4 :: rat)\<bar> * (12 / 10)) 1" by blast
  with r i v show ?thesis by simp
qed

text \<open>
  C6. Without a classifier, when the scorer returns scores with compound value \<open>c\<close>:
  the polarity is \<^verbatim>\<open>"positive"\<close> and the primary emotion \<^verbatim>\<open>"joy"\<close> if \<open>c \<ge> 0.05\<close>;
  \<^verbatim>\<open>"negative"\<close> and \<^verbatim>\<open>"sadness"\<close> if \<open>c \<le> -0.05\<close>; \<^verbatim>\<open>"neutral"\<close> and \<^verbatim>\<open>"neutral"\<close>
  otherwise. Both thresholds belong to the outer buckets, and the granular label is
  the primary emotion.
\<close>

theorem detect_polarity_buckets:
  assumes "hf_classifier d = None" and "vader d txt = Inr vs"
    and "map_of vs ''compound'' = Some c"
  shows "vader_polarity vs =
           Inr (if 5 / 100 \<le> c then ''positive''
                else if c \<le> - (5 / 100) then ''negative'' else ''neutral'') \<and>
         (\<exists>r. detect d txt = Inr r \<and>
              primary_emotion r =
                (if 5 / 100 \<le> c then ''joy''
                 else if c \<le> - (5 / 100) then ''sadness'' else ''neutral'') \<and>
              granular_label r = primary_emotion r)"
  using assms
  by (simp add: detect_polarity_path vader_polarity_def dict_index_Some)

theorem detect_polarity_buckets_witness:
  "(\<exists>r. detect \<lparr>vader = scorer_const (5 / 100), hf_classifier = None\<rparr> ''fine'' = Inr r \<and>
        primary_emotion r = ''joy'') \<and>
   (\<exists>r. detect \<lparr>vader = scorer_const (- (5 / 100)), hf_classifier = None\<rparr> ''hm'' = Inr r \<and>
        primary_emotion r = ''sadness'') \<and>
   (\<exists>r. detect \<lparr>vader = scorer_const (4 / 100), hf_classifier = None\<rparr> ''ok'' = Inr r \<and>
        primary_emotion r = ''neutral'') \<and>
   vader_polarity [(''neg'', 0), (''neu'', 1), (''pos'', 0), (''compound'', 5 / 100)]
     = Inr ''positive''"
proof -
  have m: "map_of [(''neg'', 0), (''neu'', 1), (''pos'', 0), (''compound'', c)] ''compound''
             = Some c" for c :: rat
    by simp
  have t: "vader_polarity [(''neg'', 0), (''neu'', 1), (''pos'', 0), (''compound'', c)] =
             Inr (if 5 / 100 \<le> c then ''positive''
                  else if c \<le> - (5 / 100) then ''negative'' else ''neutral'') \<and>
           (\<exists>r. detect \<lparr>vader = scorer_const c, hf_classifier = None\<rparr> tx = Inr r \<and>
                primary_emotion r =
                  (if 5 / 100 \<le> c then ''joy''
                   else if c \<le> - (5 / 100) then ''sadness'' else ''neutral'') \<and>
                granular_label r = primary_emotion r)" for c tx
    by (rule detect_polarity_buckets) (simp_all add: scorer_const_def)
  show ?thesis
    using t [of "5 / 100" "''fine''"] t [of "- (5 / 100)" "''hm''"] t [of "4 / 100" "''ok''"]
    by simp blast
qed

text \<open>
  C1 (as amended). When the classifier is active, the scorer has returned a compound
  score, and the label \<open>lbl\<close> with the greatest classifier score is not a key of the
  label-normalisation table, \<^verbatim>\<open>detect\<close> returns a result whose granular label and
  primary emotion are both \<open>lbl\<close>, unchanged: the primary emotion is not coerced to
  \<^verbatim>\<open>"neutral"\<close> and need not be one of the enumerated emotions when it reaches the
  mapper. The mapper then maps it as \<^verbatim>\<open>"neutral"\<close> if it is no key of the profile
  table either.
\<close>

theorem detect_unknown_label_passes_through:
  assumes "hf_classifier d = Some clf" and "vader d txt = Inr vs"
    and "map_of vs ''compound'' = Some c"
    and "hf_analyse clf txt = Inr (sc, lbl)" and "lbl \<notin> fst ` set HF_LABEL_MAP"
  shows "\<exists>r. detect d txt = Inr r \<and> granular_label r = lbl \<and> primary_emotion r = lbl \<and>
             (\<exists>s. (lbl, s) \<in> set sc \<and> (\<forall>kv \<in> set sc. snd kv \<le> s)) \<and>
             (lbl \<notin> fst ` set EMOTION_PROFILE \<longrightarrow>
                map_voice m (primary_emotion r) i = map_voice m ''neutral'' i)"
proof -
  let ?r = "\<lparr>input_text = txt, primary_emotion = lbl,
             intensity = min (\<bar>c\<bar> * (12 / 10)) 1, granular_label = lbl,
             vader_scores = vs, hf_scores = sc\<rparr>"
  have "dict_get HF_LABEL_MAP lbl lbl = lbl"
    using assms(5) by (rule dict_get_absent)
  then have r: "detect d txt = Inr ?r"
    using assms(1-4) by (simp add: detect_classifier_path)
  have g: "\<exists>s. (lbl, s) \<in> set sc \<and> (\<forall>kv \<in> set sc. snd kv \<le> s)"
    using assms(4) by (rule hf_analyse_greatest)
  have n: "map_voice m lbl i = map_voice m ''neutral'' i"
    if "lbl \<notin> fst ` set EMOTION_PROFILE"
  proof -
    have "dict_get EMOTION_PROFILE lbl (0, 1, 0) = (0, 1, 0)"
      using that by (rule dict_get_absent)
    moreover have "dict_get EMOTION_PROFILE ''neutral'' (0, 1, 0) = (0, 1, 0)"
      by (simp add: dict_get_def EMOTION_PROFILE_def)
    ultimately show ?thesis by (simp add: map_voice_eq)
  qed
  from r g n show ?thesis by simp
qed

theorem detect_unknown_label_passes_through_witness:
  "hf_analyse (classifier_const [(''joy'', 1 / 10), (''love'', 9 / 10)]) ''I adore you''
     = Inr ([(''joy'', 1 / 10), (''love'', 9 / 10)], ''love'') \<and>
   ''love'' \<notin> fst ` set HF_LABEL_MAP \<and>
   ''love'' \<notin> fst ` set EMOTION_PROFILE \<and>
   (\<exists>r. detect \<lparr>vader = scorer_const (1 / 2),
                 hf_classifier = Some (classifier_const [(''joy'', 1 / 10), (''love'', 9 / 10)])\<rparr>
                ''I adore you'' = Inr r \<and>
        granular_label r = ''love'' \<and> primary_emotion r = ''love'' \<and>
        map_voice VoiceMapper_init (primary_emotion r) (6 / 10)
          = map_voice VoiceMapper_init ''neutral'' (6 / 10))"
proof -
  let ?clf = "classifier_const [(''joy'', 1 / 10), (''love'', 9 / 10)]"
  let ?d = "\<lparr>vader = scorer_const (1 / 2), hf_classifier = Some ?clf\<rparr>"
  let ?vs = "[(''neg'', 0), (''neu'', 1), (''pos'', 0), (''compound'', 1 / 2 :: rat)]"
  have h: "hf_analyse ?clf ''I adore you''
             = Inr ([(''joy'', 1 / 10), (''love'', 9 / 10)], ''love'')"
    by (simp add: hf_analyse_def classifier_const_def scores_of_def max_key_def)
  have u: "''love'' \<notin> fst ` set HF_LABEL_MAP" by (simp add: HF_LABEL_MAP_def)
  have p: "''love'' \<notin> fst ` set EMOTION_PROFILE" by (simp add: EMOTION_PROFILE_def)
  have "\<exists>r. detect ?d ''I adore you'' = Inr r \<and> granular_label r = ''love'' \<and>
          primary_emotion r = ''love'' \<and>
          (\<exists>s. (''love'', s) \<in> set [(''joy'', 1 / 10), (''love'', 9 / 10)] \<and>
               (\<forall>kv \<in> set [(''joy'', 1 / 10), (''love'', 9 / 10 :: rat)]. snd kv \<le> s)) \<and>
          (''love'' \<notin> fst ` set EMOTION_PROFILE \<longrightarrow>
             map_voice VoiceMapper_init (primary_emotion r) (6 / 10)
               = map_voice VoiceMapper_init ''neutral'' (6 / 10))"
    by (rule detect_unknown_label_passes_through [where clf = ?clf and vs = ?vs and c = "1 / 2"])
       (simp_all add: scorer_const_def h u)
  with h u p show ?thesis by blast
qed

text \<open>
  The claim as stated fails: the classifier's greatest score goes to \<^verbatim>\<open>"love"\<close>, no key
  of the normalisation table, and the primary emotion of the result is \<^verbatim>\<open>"love"\<close>, not
  \<^verbatim>\<open>"neutral"\<close>.
\<close>

theorem detect_unknown_label_not_neutral:
  "detect \<lparr>vader = scorer_const (1 / 2),
           hf_classifier = Some (classifier_const [(''joy'', 1 / 10), (''love'', 9 / 10)])\<rparr>
          ''I adore you''
     = Inr \<lparr>input_text = ''I adore you'', primary_emotion = ''love'', intensity = 6 / 10,
            granular_label = ''love'',
            vader_scores = [(''neg'', 0), (''neu'', 1), (''pos'', 0), (''compound'', 1 / 2)],
            hf_scores = [(''joy'', 1 / 10), (''love'', 9 / 10)]\<rparr>
   \<and> ''love'' \<notin> fst ` set HF_LABEL_MAP"
  by (simp add: detect_def vader_analyse_def compute_intensity_def dict_index_def
      scorer_const_def classifier_const_def hf_analyse_def scores_of_def max_key_def
      dict_get_def HF_LABEL_MAP_def)

text \<open>
  C2 (as amended). \<^verbatim>\<open>detect\<close> has no handler: an exception raised by the sentiment
  scorer, or by the classifier during classification, leaves \<^verbatim>\<open>detect\<close> as it was
  raised. The polarity-only path is the path of a detector without classifier; a
  failure to load the classifier is absorbed by the constructor, which leaves the
  detector without classifier, and \<^verbatim>\<open>detect\<close> on such a detector returns a result
  with empty classifier scores whenever the scorer returns a compound score.
\<close>

theorem detect_propagates_collaborator_failure:
  "(vader d txt = Inl exc \<longrightarrow> detect d txt = Inl exc)
   \<and> (hf_classifier d = Some clf \<and> vader d txt = Inr vs \<and> map_of vs ''compound'' = Some c \<and>
        clf txt = Inl exc \<longrightarrow> detect d txt = Inl exc)
   \<and> (an txt = Inr vs \<and> map_of vs ''compound'' = Some c \<longrightarrow>
        (\<exists>r. detect (EmotionDetector_init an avail (Inl exc) use_hf) txt = Inr r \<and>
             hf_scores r = [] \<and> granular_label r = primary_emotion r))"
proof (intro conjI impI)
  assume "vader d txt = Inl exc"
  then show "detect d txt = Inl exc"
    by (simp add: detect_def vader_analyse_def)
next
  assume a: "hf_classifier d = Some clf \<and> vader d txt = Inr vs \<and>
    map_of vs ''compound'' = Some c \<and> clf txt = Inl exc"
  then have "hf_analyse clf txt = Inl exc" by (simp add: hf_analyse_def)
  with a show "detect d txt = Inl exc" by (simp add: detect_classifier_path)
next
  assume a: "an txt = Inr vs \<and> map_of vs ''compound'' = Some c"
  let ?d = "EmotionDetector_init an avail (Inl exc) use_hf"
  have "hf_classifier ?d = None" and "vader ?d txt = Inr vs"
    using a by (simp_all add: EmotionDetector_init_def)
  then show "\<exists>r. detect ?d txt = Inr r \<and> hf_scores r = [] \<and>
      granular_label r = primary_emotion r"
    using a by (simp add: detect_polarity_path)
qed

theorem detect_propagates_collaborator_failure_witness:
  "detect \<lparr>vader = scorer_failing (RuntimeError ''lexicon missing''), hf_classifier = None\<rparr>
          ''hello'' = Inl (RuntimeError ''lexicon missing'') \<and>
   detect \<lparr>vader = scorer_const (1 / 2),
           hf_classifier = Some (classifier_failing (ValueError ''bad input''))\<rparr>
          ''hello'' = Inl (ValueError ''bad input'') \<and>
   (\<exists>r. detect (EmotionDetector_init (scorer_const (1 / 2)) True
                  (Inl (RuntimeError ''model download failed'')) True) ''hello'' = Inr r \<and>
        hf_scores r = [] \<and> granular_label r = primary_emotion r)"
proof -
  let ?vs = "[(''neg'', 0), (''neu'', 1), (''pos'', 0), (''compound'', 1 / 2 :: rat)]"
  let ?d1 = "\<lparr>vader = scorer_failing (RuntimeError ''lexicon missing''), hf_classifier = None\<rparr>"
  let ?clf = "classifier_failing (ValueError ''bad input'')"
  let ?d2 = "\<lparr>vader = scorer_const (1 / 2), hf_classifier = Some ?clf\<rparr>"
  have 1: "detect ?d1 ''hello'' = Inl (RuntimeError ''lexicon missing'')"
    using detect_propagates_collaborator_failure
      [of ?d1 "''hello''" "RuntimeError ''lexicon missing''"]
    by (simp add: scorer_failing_def)
  have 2: "detect ?d2 ''hello'' = Inl (ValueError ''bad input'')"
    using detect_propagates_collaborator_failure
      [of ?d2 "''hello''" "ValueError ''bad input''" ?clf ?vs "1 / 2"]
    by (simp add: scorer_const_def classifier_failing_def)
  have 3: "\<exists>r. detect (EmotionDetector_init (scorer_const (1 / 2)) True
                  (Inl (RuntimeError ''model download failed'')) True) ''hello'' = Inr r \<and>
        hf_scores r = [] \<and> granular_label r = primary_emotion r"
    using detect_propagates_collaborator_failure
      [of _ "''hello''" "RuntimeError ''model download failed''" _ ?vs "1 / 2"
          "scorer_const (1 / 2)" True True]
    by (simp add: scorer_const_def)
  from 1 2 3 show ?thesis by blast
qed

text \<open>
  The claim as stated fails: the classifier raises during classification and
  \<^verbatim>\<open>detect\<close> raises the same exception instead of returning a result.
\<close>

theorem detect_classifier_exception_escapes:
  "detect \<lparr>vader = scorer_const (1 / 2),
           hf_classifier = Some (classifier_failing (RuntimeError ''inference failed''))\<rparr>
          ''hello''
   = Inl (RuntimeError ''inference failed'')"
  by (simp add: detect_def vader_analyse_def compute_intensity_def dict_index_def
      scorer_const_def classifier_failing_def hf_analyse_def)

subsection \<open>The synthesis dispatcher and the route \<^verbatim>\<open>/synthesize\<close>\<close>

lemma synthesize_unknown:
  assumes "backend t \<noteq> ''macos_say''" "backend t \<noteq> ''pyttsx3''" "backend t \<noteq> ''gtts''"
  shows "synthesize pf t txt params outp uid fs
           = (Inl (ValueError (''Unknown TTS backend: '' @ backend t)), fs)"
  using assms by (simp add: synthesize_def Let_def)

lemma process_unknown:
  assumes "backend (tts e) \<noteq> ''macos_say''" "backend (tts e) \<noteq> ''pyttsx3''"
    "backend (tts e) \<noteq> ''gtts''"
  shows "\<exists>exc. process pf e txt outp uid fs = (Inl exc, fs)"
  using assms by (simp add: process_def synthesize_unknown split: sum.splits)

lemma route_blank:
  assumes "py_strip (dict_get data ''text'' '''') = ''''"
  shows "synthesize_route pf data uid st
           = (\<lparr>status = 400, body = ErrorBody ''Please provide some text.''\<rparr>, st)"
  using assms by (simp add: synthesize_route_def)

lemma route_engine_after:
  assumes "py_strip (dict_get data ''text'' '''') \<noteq> ''''"
  shows "engine_global (snd (synthesize_route pf data uid st))
           = Some ((fst (get_engine pf st))
                     \<lparr>tts := (tts (fst (get_engine pf st)))
                                \<lparr>backend := dict_get data ''engine'' ''pyttsx3''\<rparr>\<rparr>)"
  using assms
  by (simp add: synthesize_route_def Let_def split: prod.splits sum.splits)

lemma route_unknown:
  assumes "py_strip (dict_get data ''text'' '''') \<noteq> ''''"
    and "dict_get data ''engine'' ''pyttsx3'' \<noteq> ''macos_say''"
    and "dict_get data ''engine'' ''pyttsx3'' \<noteq> ''pyttsx3''"
    and "dict_get data ''engine'' ''pyttsx3'' \<noteq> ''gtts''"
  shows "status (fst (synthesize_route pf data uid st)) = 500 \<and>
         audio_files (snd (synthesize_route pf data uid st)) = audio_files st"
proof -
  obtain e0 st1 where g: "get_engine pf st = (e0, st1)" by (cases "get_engine pf st")
  have fs1: "audio_files st1 = audio_files st"
    using g by (auto simp add: get_engine_def Let_def split: option.splits)
  let ?e = "e0\<lparr>tts := (tts e0)\<lparr>backend := dict_get data ''engine'' ''pyttsx3''\<rparr>\<rparr>"
  have "\<exists>exc. process pf ?e (py_strip (dict_get data ''text'' '''')) None uid (audio_files st1)
           = (Inl exc, audio_files st1)"
    using assms(2-4) by (intro process_unknown) simp_all
  then obtain exc where
    p: "process pf ?e (py_strip (dict_get data ''text'' '''')) None uid (audio_files st1)
          = (Inl exc, audio_files st1)" ..
  show ?thesis
    using assms(1) g p fs1 by (simp add: synthesize_route_def Let_def)
qed

text \<open>
  C3 (as amended). A request to \<^verbatim>\<open>/synthesize\<close> whose text is not blank and which
  names an engine stores that engine value in the backend field of the process-wide
  engine, where it is found after the request has been served: the choice of the
  back end is kept in the shared engine, not passed with the call. A request whose
  text is blank is answered with 400 and leaves the state as it was.
\<close>

theorem route_stores_backend:
  "(py_strip (dict_get data ''text'' '''') \<noteq> '''' \<and> map_of data ''engine'' = Some b \<longrightarrow>
      (\<exists>e. engine_global (snd (synthesize_route pf data uid st)) = Some e \<and>
           backend (tts e) = b))
   \<and> (py_strip (dict_get data ''text'' '''') = '''' \<longrightarrow>
      status (fst (synthesize_route pf data uid st)) = 400 \<and>
      snd (synthesize_route pf data uid st) = st)"
proof -
  have 1: "\<exists>e. engine_global (snd (synthesize_route pf data uid st)) = Some e \<and>
      backend (tts e) = b"
    if "py_strip (dict_get data ''text'' '''') \<noteq> '''' \<and> map_of data ''engine'' = Some b"
    using that by (simp add: route_engine_after dict_get_def)
  have 2: "status (fst (synthesize_route pf data uid st)) = 400 \<and>
      snd (synthesize_route pf data uid st) = st"
    if "py_strip (dict_get data ''text'' '''') = ''''"
    using that by (simp add: route_blank)
  from 1 2 show ?thesis by blast
qed

theorem route_stores_backend_witness:
  "(\<exists>e. engine_global (snd (synthesize_route demo_platform
            [(''text'', ''Good morning''), (''engine'', ''gtts'')] ''9f3c2a7e51d04b6f''
            \<lparr>engine_global = None, audio_files = []\<rparr>)) = Some e \<and>
        backend (tts e) = ''gtts'') \<and>
   status (fst (synthesize_route demo_platform [(''text'', ''   ''), (''engine'', ''gtts'')]
          ''9f3c2a7e51d04b6f'' \<lparr>engine_global = None, audio_files = []\<rparr>)) = 400 \<and>
   snd (synthesize_route demo_platform [(''text'', ''   ''), (''engine'', ''gtts'')]
          ''9f3c2a7e51d04b6f'' \<lparr>engine_global = None, audio_files = []\<rparr>)
     = \<lparr>engine_global = None, audio_files = []\<rparr>"
proof -
  have s1: "py_strip (dict_get [(''text'', ''Good morning''), (''engine'', ''gtts'')] ''text'' '''')
              \<noteq> ''''"
    by code_simp
  have s2: "py_strip (dict_get [(''text'', ''   ''), (''engine'', ''gtts'')] ''text'' '''') = ''''"
    by code_simp
  have g: "map_of [(''text'', ''Good morning''), (''engine'', ''gtts'')] ''engine'' = Some ''gtts''"
    by simp
  show ?thesis
    using route_stores_backend
        [of "[(''text'', ''Good morning''), (''engine'', ''gtts'')]" "''gtts''" demo_platform
            "''9f3c2a7e51d04b6f''" "\<lparr>engine_global = None, audio_files = []\<rparr>"]
      route_stores_backend
        [of "[(''text'', ''   ''), (''engine'', ''gtts'')]" "''gtts''" demo_platform
            "''9f3c2a7e51d04b6f''" "\<lparr>engine_global = None, audio_files = []\<rparr>"]
      s1 s2 g
    by metis
qed

text \<open>
  The claim as stated fails: the engine was built with \<^verbatim>\<open>"auto"\<close> off macOS, so its
  backend field is \<^verbatim>\<open>"pyttsx3"\<close>; after a request with engine \<^verbatim>\<open>"gtts"\<close> has been
  served the field of the process-wide engine is \<^verbatim>\<open>"gtts"\<close>.
\<close>

theorem route_changes_shared_backend:
  "backend (tts (EmpathyEngine_init demo_platform ''auto'' True)) = ''pyttsx3''
   \<and> engine_global (snd (synthesize_route demo_platform
        [(''text'', ''Good morning''), (''engine'', ''gtts'')] ''9f3c2a7e51d04b6f''
        \<lparr>engine_global = Some (EmpathyEngine_init demo_platform ''auto'' True),
          audio_files = []\<rparr>))
     = Some ((EmpathyEngine_init demo_platform ''auto'' True)\<lparr>tts := \<lparr>backend = ''gtts''\<rparr>\<rparr>)"
proof -
  have s: "py_strip (dict_get [(''text'', ''Good morning''), (''engine'', ''gtts'')] ''text'' '''')
              \<noteq> ''''"
    by code_simp
  show ?thesis
    by (simp add: route_engine_after [OF s] dict_get_def get_engine_def EmpathyEngine_init_def
        TTSEngine_init_def demo_platform_def)
qed

text \<open>
  C10 (as amended). A dispatcher whose backend field is none of \<^verbatim>\<open>"macos_say"\<close>,
  \<^verbatim>\<open>"pyttsx3"\<close>, \<^verbatim>\<open>"gtts"\<close> raises \<^verbatim>\<open>ValueError\<close> from \<^verbatim>\<open>synthesize\<close> and leaves the
  audio files as they were; the constructor resolves \<^verbatim>\<open>"auto"\<close> to one of the first two
  and lowers every other name, so this is the case of every constructor argument
  other than \<^verbatim>\<open>"auto"\<close> whose lower-case form is none of the three. The route stores
  the engine value of the request unchecked, so a request with a text that is not
  blank and an engine value that is none of the three is answered with status 500,
  and no audio file is written. A request with a blank text is answered with status
  400 whatever its engine value, since the text is checked before the engine value
  is read.
\<close>

theorem unknown_backend_raises:
  "(backend t \<notin> {''macos_say'', ''pyttsx3'', ''gtts''} \<longrightarrow>
      synthesize pf t txt params outp uid fs
        = (Inl (ValueError (''Unknown TTS backend: '' @ backend t)), fs))
   \<and> backend (TTSEngine_init pf ''auto'') \<in> {''macos_say'', ''pyttsx3''}
   \<and> (b \<noteq> ''auto'' \<and> str_lower pf b \<notin> {''macos_say'', ''pyttsx3'', ''gtts''} \<longrightarrow>
      synthesize pf (TTSEngine_init pf b) txt params outp uid fs
        = (Inl (ValueError (''Unknown TTS backend: '' @ str_lower pf b)), fs))
   \<and> (py_strip (dict_get data ''text'' '''') \<noteq> '''' \<and>
      dict_get data ''engine'' ''pyttsx3'' \<notin> {''macos_say'', ''pyttsx3'', ''gtts''} \<longrightarrow>
      status (fst (synthesize_route pf data uid st)) = 500 \<and>
      audio_files (snd (synthesize_route pf data uid st)) = audio_files st)
   \<and> (py_strip (dict_get data ''text'' '''') = '''' \<longrightarrow>
      status (fst (synthesize_route pf data uid st)) = 400 \<and>
      snd (synthesize_route pf data uid st) = st)"
proof -
  have 1: "synthesize pf t txt params outp uid fs
      = (Inl (ValueError (''Unknown TTS backend: '' @ backend t)), fs)"
    if "backend t \<notin> {''macos_say'', ''pyttsx3'', ''gtts''}"
    using that by (intro synthesize_unknown) simp_all
  have 2: "backend (TTSEngine_init pf ''auto'') \<in> {''macos_say'', ''pyttsx3''}"
    by (simp add: TTSEngine_init_def)
  have 3: "synthesize pf (TTSEngine_init pf b) txt params outp uid fs
      = (Inl (ValueError (''Unknown TTS backend: '' @ str_lower pf b)), fs)"
    if a: "b \<noteq> ''auto'' \<and> str_lower pf b \<notin> {''macos_say'', ''pyttsx3'', ''gtts''}"
  proof -
    from a have "backend (TTSEngine_init pf b) = str_lower pf b"
      by (simp add: TTSEngine_init_def)
    with a show ?thesis
      using synthesize_unknown [of "TTSEngine_init pf b" pf "txt" params outp uid fs] by simp
  qed
  have 4: "status (fst (synthesize_route pf data uid st)) = 500 \<and>
      audio_files (snd (synthesize_route pf data uid st)) = audio_files st"
    if "py_strip (dict_get data ''text'' '''') \<noteq> '''' \<and>
      dict_get data ''engine'' ''pyttsx3'' \<notin> {''macos_say'', ''pyttsx3'', ''gtts''}"
    using that by (intro route_unknown) simp_all
  have 5: "status (fst (synthesize_route pf data uid st)) = 400 \<and>
      snd (synthesize_route pf data uid st) = st"
    if "py_strip (dict_get data ''text'' '''') = ''''"
    using that by (simp add: route_blank)
  from 1 2 3 4 5 show ?thesis by blast
qed

theorem unknown_backend_raises_witness:
  "synthesize demo_platform \<lparr>backend = ''festival''\<rparr> ''hello''
       \<lparr>rate = 200, pitch = 1, volume = 85 / 100\<rparr> None ''9f3c2a7e51d04b6f'' [''old.wav'']
     = (Inl (ValueError ''Unknown TTS backend: festival''), [''old.wav'']) \<and>
   synthesize demo_platform (TTSEngine_init demo_platform ''Festival'') ''hello''
       \<lparr>rate = 200, pitch = 1, volume = 85 / 100\<rparr> None ''9f3c2a7e51d04b6f'' [''old.wav'']
     = (Inl (ValueError ''Unknown TTS backend: festival''), [''old.wav'']) \<and>
   status (fst (synthesize_route demo_platform
       [(''text'', ''hello''), (''engine'', ''auto'')] ''9f3c2a7e51d04b6f''
       \<lparr>engine_global = None, audio_files = [''old.wav'']\<rparr>)) = 500 \<and>
   audio_files (snd (synthesize_route demo_platform
       [(''text'', ''hello''), (''engine'', ''auto'')] ''9f3c2a7e51d04b6f''
       \<lparr>engine_global = None, audio_files = [''old.wav'']\<rparr>)) = [''old.wav''] \<and>
   status (fst (synthesize_route demo_platform
       [(''text'', [CHR 0x20, CHR 0xC2, CHR 0xA0, CHR 0x0A]), (''engine'', ''auto'')]
       ''9f3c2a7e51d04b6f'' \<lparr>engine_global = None, audio_files = [''old.wav'']\<rparr>)) = 400"
proof -
  have l: "str_lower demo_platform ''Festival'' = ''festival''" by code_simp
  have s: "py_strip (dict_get [(''text'', ''hello''), (''engine'', ''auto'')] ''text'' '''') \<noteq> ''''"
    by code_simp
  have g: "dict_get [(''text'', ''hello''), (''engine'', ''auto'')] ''engine'' ''pyttsx3'' = ''auto''"
    by (simp add: dict_get_def)
  have z: "py_strip (dict_get [(''text'', [CHR 0x20, CHR 0xC2, CHR 0xA0, CHR 0x0A]),
                               (''engine'', ''auto'')] ''text'' '''') = ''''"
    by code_simp
  have a: "synthesize demo_platform \<lparr>backend = ''festival''\<rparr> ''hello''
       \<lparr>rate = 200, pitch = 1, volume = 85 / 100\<rparr> None ''9f3c2a7e51d04b6f'' [''old.wav'']
     = (Inl (ValueError ''Unknown TTS backend: festival''), [''old.wav'']) \<and>
   synthesize demo_platform (TTSEngine_init demo_platform ''Festival'') ''hello''
       \<lparr>rate = 200, pitch = 1, volume = 85 / 100\<rparr> None ''9f3c2a7e51d04b6f'' [''old.wav'']
     = (Inl (ValueError ''Unknown TTS backend: festival''), [''old.wav'']) \<and>
   status (fst (synthesize_route demo_platform
       [(''text'', ''hello''), (''engine'', ''auto'')] ''9f3c2a7e51d04b6f''
       \<lparr>engine_global = None, audio_files = [''old.wav'']\<rparr>)) = 500 \<and>
   audio_files (snd (synthesize_route demo_platform
       [(''text'', ''hello''), (''engine'', ''auto'')] ''9f3c2a7e51d04b6f''
       \<lparr>engine_global = None, audio_files = [''old.wav'']\<rparr>)) = [''old.wav'']"
    using unknown_backend_raises
        [of "\<lparr>backend = ''festival''\<rparr>" demo_platform "''hello''"
            "\<lparr>rate = 200, pitch = 1, volume = 85 / 100\<rparr>" None "''9f3c2a7e51d04b6f''"
            "[''old.wav'']" "''Festival''" "[(''text'', ''hello''), (''engine'', ''auto'')]"
            "\<lparr>engine_global = None, audio_files = [''old.wav'']\<rparr>"]
      l s g
    by simp
  have b: "status (fst (synthesize_route demo_platform
       [(''text'', [CHR 0x20, CHR 0xC2, CHR 0xA0, CHR 0x0A]), (''engine'', ''auto'')]
       ''9f3c2a7e51d04b6f'' \<lparr>engine_global = None, audio_files = [''old.wav'']\<rparr>)) = 400"
    using unknown_backend_raises
        [of _ demo_platform _ _ _ "''9f3c2a7e51d04b6f''" _ _
            "[(''text'', [CHR 0x20, CHR 0xC2, CHR 0xA0, CHR 0x0A]), (''engine'', ''auto'')]"
            "\<lparr>engine_global = None, audio_files = [''old.wav'']\<rparr>"]
      z
    by blast
  from a b show ?thesis by blast
qed

text \<open>
  The claim as stated fails: the request names the engine \<^verbatim>\<open>"festival"\<close>, none of the
  three, and its text is blank; it is answered with status 400, not 500.
\<close>

theorem unknown_backend_blank_text_400:
  "dict_get [(''text'', ''   ''), (''engine'', ''festival'')] ''engine'' ''pyttsx3'' = ''festival''
   \<and> ''festival'' \<notin> {''macos_say'', ''pyttsx3'', ''gtts''}
   \<and> synthesize_route demo_platform [(''text'', ''   ''), (''engine'', ''festival'')]
         ''9f3c2a7e51d04b6f'' \<lparr>engine_global = None, audio_files = []\<rparr>
       = (\<lparr>status = 400, body = ErrorBody ''Please provide some text.''\<rparr>,
          \<lparr>engine_global = None, audio_files = []\<rparr>)"
proof -
  have s: "py_strip (dict_get [(''text'', ''   ''), (''engine'', ''festival'')] ''text'' '''') = ''''"
    by code_simp
  show ?thesis
    by (simp add: route_blank [OF s] dict_get_def)
qed

subsection \<open>The explanation and its numbers\<close>

lemma digit_char_props:
  assumes "d < 10"
  shows "is_digit (digit_char d)" and "digit_value (digit_char d) = d"
    and "is_numeral_char (digit_char d)" and "digit_char d \<noteq> CHR ''.''"
    and "digit_char d \<noteq> CHR ''-''"
proof -
  from assms have "d \<in> {0, 1, 2, 3, 4, 5, 6, 7, 8, 9}" by auto
  then show "is_digit (digit_char d)" and "digit_value (digit_char d) = d"
    and "is_numeral_char (digit_char d)" and "digit_char d \<noteq> CHR ''.''"
    and "digit_char d \<noteq> CHR ''-''"
    by (auto simp add: digit_char_def is_digit_def digit_value_def is_numeral_char_def)
qed

lemma parse_digits_append:
  "parse_digits acc (xs @ ys) =
     (case parse_digits acc xs of None \<Rightarrow> None | Some v \<Rightarrow> parse_digits v ys)"
  by (induction xs arbitrary: acc) simp_all

lemma parse_digits_str_nat: "parse_digits 0 (str_nat n) = Some n"
proof (induction n rule: str_nat.induct)
  case (1 n)
  show ?case
  proof (cases "n < 10")
    case True
    then show ?thesis
      by (subst str_nat.simps) (simp add: digit_char_props)
  next
    case False
    then have ih: "parse_digits 0 (str_nat (n div 10)) = Some (n div 10)" by (rule "1.IH")
    have d: "n mod 10 < 10" by simp
    show ?thesis
      using False ih digit_char_props(1,2)[OF d]
      by (subst str_nat.simps) (simp add: parse_digits_append)
  qed
qed

lemma str_nat_nonempty: "str_nat n \<noteq> []"
  by (subst str_nat.simps) simp

lemma str_nat_digits: "c \<in> set (str_nat n) \<Longrightarrow> \<exists>d<10. c = digit_char d"
proof (induction n rule: str_nat.induct)
  case (1 n)
  show ?case
  proof (cases "n < 10")
    case True
    with "1.prems" show ?thesis
      by (subst (asm) str_nat.simps) auto
  next
    case False
    with "1.prems" have "c \<in> set (str_nat (n div 10)) \<or> c = digit_char (n mod 10)"
      by (subst (asm) str_nat.simps) auto
    then show ?thesis
    proof
      assume "c \<in> set (str_nat (n div 10))"
      with False show ?thesis using "1.IH" by blast
    next
      assume "c = digit_char (n mod 10)"
      moreover have "n mod 10 < 10" by simp
      ultimately show ?thesis by blast
    qed
  qed
qed

lemma parse_nat_str_nat: "parse_nat (str_nat n) = Some n"
  by (simp add: parse_nat_def str_nat_nonempty parse_digits_str_nat)

lemma str_nat_length_1: "n < 10 \<Longrightarrow> length (str_nat n) = 1"
  by (subst str_nat.simps) simp

lemma str_nat_length_2: "n < 100 \<Longrightarrow> length (str_nat n) \<le> 2"
proof (cases "n < 10")
  case True
  then show ?thesis by (simp add: str_nat_length_1)
next
  case False
  assume "n < 100"
  then have "n div 10 < 10" by simp
  then have "length (str_nat (n div 10)) = 1" by (rule str_nat_length_1)
  with False show ?thesis by (subst str_nat.simps) simp
qed

lemma parse_digits_zeros: "parse_digits 0 (replicate k (CHR ''0'') @ s) = parse_digits 0 s"
  by (induction k) (simp_all add: is_digit_def digit_value_def)

lemma zero_pad_2:
  assumes "f < 100"
  shows "parse_nat (zero_pad 2 (str_nat f)) = Some f" and "length (zero_pad 2 (str_nat f)) = 2"
proof -
  have "length (str_nat f) \<le> 2" using assms by (rule str_nat_length_2)
  then show "length (zero_pad 2 (str_nat f)) = 2" by (simp add: zero_pad_def)
  have "zero_pad 2 (str_nat f) \<noteq> []" by (simp add: zero_pad_def str_nat_nonempty)
  then show "parse_nat (zero_pad 2 (str_nat f)) = Some f"
    by (simp add: parse_nat_def) (simp add: zero_pad_def parse_digits_zeros parse_digits_str_nat)
qed

lemma str_nat_no_dot: "c \<in> set (str_nat n) \<Longrightarrow> c \<noteq> CHR ''.''"
proof -
  assume "c \<in> set (str_nat n)"
  then obtain d where "d < 10" and "c = digit_char d" using str_nat_digits by blast
  then show ?thesis by (simp add: digit_char_props(4))
qed

lemma str_nat_hd_no_minus: "hd (str_nat n) \<noteq> CHR ''-''"
proof -
  have "hd (str_nat n) \<in> set (str_nat n)" by (simp add: str_nat_nonempty)
  then obtain d where "d < 10" and "hd (str_nat n) = digit_char d"
    using str_nat_digits by blast
  then show ?thesis by (simp add: digit_char_props(5))
qed

lemma split_at_dot:
  "takeWhile (\<lambda>c. c \<noteq> CHR ''.'') (str_nat a @ CHR ''.'' # fr) = str_nat a"
  "dropWhile (\<lambda>c. c \<noteq> CHR ''.'') (str_nat a @ CHR ''.'' # fr) = CHR ''.'' # fr"
  using str_nat_no_dot by (simp_all add: takeWhile_append2 dropWhile_append2)

text \<open>The value that the digits of a two-decimal format denote.\<close>

lemma parse_unsigned_fixed_2:
  assumes "f < 100"
  shows "parse_decimal (str_nat a @ ''.'' @ zero_pad 2 (str_nat f))
           = Some (of_nat a + of_nat f / 100)"
proof -
  let ?s = "str_nat a @ ''.'' @ zero_pad 2 (str_nat f)"
  have ne: "?s \<noteq> []" by (simp add: str_nat_nonempty)
  have "hd ?s = hd (str_nat a)" by (simp add: str_nat_nonempty)
  then have nm: "hd ?s \<noteq> CHR ''-''" by (simp add: str_nat_hd_no_minus)
  show ?thesis
    using nm zero_pad_2[OF assms]
    by (simp add: parse_decimal_def Let_def split_at_dot parse_nat_str_nat)
qed

lemma parse_negative_fixed_2:
  assumes "f < 100"
  shows "parse_decimal (''-'' @ str_nat a @ ''.'' @ zero_pad 2 (str_nat f))
           = Some (- (of_nat a + of_nat f / 100))"
  using zero_pad_2[OF assms]
  by (simp add: parse_decimal_def Let_def split_at_dot parse_nat_str_nat)

lemma round_half_even_nonneg: "0 \<le> x \<Longrightarrow> 0 \<le> round_half_even x"
  by (auto simp add: round_half_even_def Let_def)

lemma round_half_even_error: "\<bar>of_int (round_half_even x) - x\<bar> \<le> 1 / 2"
proof -
  have "of_int \<lfloor>x\<rfloor> \<le> x" and "x < of_int \<lfloor>x\<rfloor> + 1" by linarith+
  then show ?thesis
    by (auto simp add: round_half_even_def Let_def abs_le_iff)
qed

lemma round_half_even_minus: "round_half_even (- x) = - round_half_even x"
proof (cases "x = of_int \<lfloor>x\<rfloor>")
  case True
  then have "- x = of_int (- \<lfloor>x\<rfloor>)" by simp
  then have "\<lfloor>- x\<rfloor> = - \<lfloor>x\<rfloor>" by (metis floor_of_int)
  with True show ?thesis by (simp add: round_half_even_def Let_def)
next
  case False
  have b: "of_int \<lfloor>x\<rfloor> \<le> x" "x < of_int \<lfloor>x\<rfloor> + 1" by linarith+
  have lt: "of_int \<lfloor>x\<rfloor> < x"
    using False by (metis of_int_floor_le less_le)
  have fl: "\<lfloor>- x\<rfloor> = - \<lfloor>x\<rfloor> - 1"
    using lt b(2) by (intro floor_unique) simp_all
  show ?thesis
    using lt b(2) by (auto simp add: round_half_even_def Let_def fl)
qed

lemma of_nat_div_mod_100: "(of_nat (n div 100) :: rat) + of_nat (n mod 100) / 100 = of_nat n / 100"
proof -
  have "(of_nat n :: rat) = of_nat (n div 100 * 100 + n mod 100)" by simp
  also have "\<dots> = of_nat (n div 100) * 100 + of_nat (n mod 100)"
    by (simp only: of_nat_add of_nat_mult of_nat_numeral)
  finally show ?thesis by (simp add: field_simps)
qed

lemma py_round_2: "py_round x 2 = of_int (round_half_even (x * 100)) / 100"
  by (simp add: py_round_def)

lemma parse_fmt_f_2: "parse_decimal (fmt_f 2 x) = Some (py_round x 2)"
proof (cases "x < 0")
  case False
  let ?n = "nat (round_half_even (\<bar>x\<bar> * 10\<^sup>2))"
  have m: "?n mod 10\<^sup>2 < 100" by simp
  have "0 \<le> round_half_even (x * 100)"
    using False by (intro round_half_even_nonneg) simp
  then have n: "(of_nat ?n :: rat) = of_int (round_half_even (x * 100))"
    using False by simp
  have "parse_decimal (fmt_f 2 x)
          = Some (of_nat (?n div 100) + of_nat (?n mod 100) / 100)"
    using False parse_unsigned_fixed_2 [of "?n mod 100" "?n div 100"]
    by (simp add: fmt_f_def fixed_digits_def Let_def)
  then show ?thesis
    by (simp only: of_nat_div_mod_100 n py_round_2)
next
  case True
  let ?n = "nat (round_half_even (\<bar>x\<bar> * 10\<^sup>2))"
  have "\<bar>x\<bar> * 10\<^sup>2 = - (x * 100)" using True by simp
  then have r: "round_half_even (\<bar>x\<bar> * 10\<^sup>2) = - round_half_even (x * 100)"
    by (simp only: round_half_even_minus)
  have "0 \<le> round_half_even (\<bar>x\<bar> * 10\<^sup>2)"
    by (intro round_half_even_nonneg) simp
  then have n: "(of_nat ?n :: rat) = - of_int (round_half_even (x * 100))"
    using r by simp
  have "parse_decimal (fmt_f 2 x)
          = Some (- (of_nat (?n div 100) + of_nat (?n mod 100) / 100))"
    using True parse_negative_fixed_2 [of "?n mod 100" "?n div 100"]
    by (simp add: fmt_f_def fixed_digits_def Let_def)
  then show ?thesis
    by (simp only: of_nat_div_mod_100 n py_round_2) simp
qed

lemma py_round_2_error: "\<bar>py_round x 2 - x\<bar> \<le> 1 / 200"
proof -
  have "\<bar>of_int (round_half_even (x * 100)) - x * 100\<bar> \<le> 1 / 2"
    by (rule round_half_even_error)
  then show ?thesis
    by (simp add: py_round_2 abs_le_iff field_simps)
qed

lemma str_nat_numeral_chars: "c \<in> set (str_nat n) \<Longrightarrow> is_numeral_char c"
proof -
  assume "c \<in> set (str_nat n)"
  then obtain d where "d < 10" and "c = digit_char d" using str_nat_digits by blast
  then show ?thesis by (simp add: digit_char_props(3))
qed

lemma numeral_char_signs:
  "is_numeral_char (CHR ''-'')" "is_numeral_char (CHR ''.'')" "is_numeral_char (CHR ''0'')"
  "\<not> is_numeral_char (CHR '' '')" "\<not> is_numeral_char (CHR 0xC3)"
  by (simp_all add: is_numeral_char_def)

lemma str_int_numeral_chars: "c \<in> set (str_int k) \<Longrightarrow> is_numeral_char c"
  by (auto simp add: str_int_def str_nat_numeral_chars numeral_char_signs split: if_splits)

lemma fmt_f_numeral_chars: "c \<in> set (fmt_f p x) \<Longrightarrow> is_numeral_char c"
  by (auto simp add: fmt_f_def fixed_digits_def zero_pad_def Let_def str_nat_numeral_chars
      numeral_char_signs split: if_splits)

lemma parse_int_str_int: "parse_int (str_int k) = Some k"
proof (cases "k < 0")
  case True
  then show ?thesis by (simp add: str_int_def parse_int_def parse_nat_str_nat)
next
  case False
  then show ?thesis
    by (simp add: str_int_def parse_int_def parse_nat_str_nat str_nat_nonempty
        str_nat_hd_no_minus)
qed

lemma numeral_after_prefix:
  assumes "\<And>ch. ch \<in> set num \<Longrightarrow> is_numeral_char ch" and "\<not> is_numeral_char c"
  shows "numeral_after label (label @ num @ c # rest) = Some num"
  using assms by (simp add: numeral_after_def takeWhile_tail)

lemma map_voice_total: "\<exists>p. map_voice m e i = Inr p"
  by (simp add: map_voice_eq split: prod.split)

lemma rate_line:
  "numeral_after ''  Rate:   '' (''  Rate:   '' @ str_int r @ '' wpm  (baseline '' @ rest)
     = Some (str_int r)"
proof -
  have "''  Rate:   '' @ str_int r @ '' wpm  (baseline '' @ rest
          = ''  Rate:   '' @ str_int r @ CHR '' '' # (''wpm  (baseline '' @ rest)"
    by simp
  also have "numeral_after ''  Rate:   '' \<dots> = Some (str_int r)"
    by (rule numeral_after_prefix) (simp_all add: str_int_numeral_chars numeral_char_signs)
  finally show ?thesis .
qed

lemma pitch_line:
  "numeral_after ''  Pitch:  '' (''  Pitch:  '' @ fmt_f 2 x @ times_sign @ rest)
     = Some (fmt_f 2 x)"
proof -
  have "''  Pitch:  '' @ fmt_f 2 x @ times_sign @ rest
          = ''  Pitch:  '' @ fmt_f 2 x @ CHR 0xC3 # (CHR 0x97 # rest)"
    by (simp add: times_sign_def)
  also have "numeral_after ''  Pitch:  '' \<dots> = Some (fmt_f 2 x)"
    by (rule numeral_after_prefix) (simp_all add: fmt_f_numeral_chars numeral_char_signs)
  finally show ?thesis .
qed

lemma volume_line:
  "numeral_after ''  Volume: '' (''  Volume: '' @ fmt_f 2 x @ ''  (baseline '' @ rest)
     = Some (fmt_f 2 x)"
proof -
  have "''  Volume: '' @ fmt_f 2 x @ ''  (baseline '' @ rest
          = ''  Volume: '' @ fmt_f 2 x @ CHR '' '' # ('' (baseline '' @ rest)"
    by simp
  also have "numeral_after ''  Volume: '' \<dots> = Some (fmt_f 2 x)"
    by (rule numeral_after_prefix) (simp_all add: fmt_f_numeral_chars numeral_char_signs)
  finally show ?thesis .
qed

lemma reparse_lines:
  "reparse [l0, l1, l2, l3,
            ''  Rate:   '' @ str_int r @ '' wpm  (baseline '' @ rest4,
            ''  Pitch:  '' @ fmt_f 2 x @ times_sign @ rest5,
            ''  Volume: '' @ fmt_f 2 v @ ''  (baseline '' @ rest6]
     = Some \<lparr>rate = r, pitch = py_round x 2, volume = py_round v 2\<rparr>"
proof -
  let ?l4 = "''  Rate:   '' @ str_int r @ '' wpm  (baseline '' @ rest4"
  let ?l5 = "''  Pitch:  '' @ fmt_f 2 x @ times_sign @ rest5"
  let ?l6 = "''  Volume: '' @ fmt_f 2 v @ ''  (baseline '' @ rest6"
  let ?ls = "[l0, l1, l2, l3, ?l4, ?l5, ?l6]"
  have n: "length ?ls = 7" "?ls ! 4 = ?l4" "?ls ! 5 = ?l5" "?ls ! 6 = ?l6"
    by simp_all
  have "reparse ?ls =
     (case (Option.bind (numeral_after ''  Rate:   '' ?l4) parse_int,
            Option.bind (numeral_after ''  Pitch:  '' ?l5) parse_decimal,
            Option.bind (numeral_after ''  Volume: '' ?l6) parse_decimal) of
        (Some r, Some p, Some v) \<Rightarrow> Some \<lparr>rate = r, pitch = p, volume = v\<rparr>
      | _ \<Rightarrow> None)"
    unfolding reparse_def n by simp
  also have "\<dots> = Some \<lparr>rate = r, pitch = py_round x 2, volume = py_round v 2\<rparr>"
    unfolding rate_line pitch_line volume_line
    by (simp add: parse_int_str_int parse_fmt_f_2)
  finally show ?thesis .
qed

text \<open>
  C9 (as amended). For every emotion and intensity, \<^verbatim>\<open>explain\<close> calls \<^verbatim>\<open>map\<close> on its
  own arguments and renders the result: it returns text, and reading the numbers of
  its rate, pitch and volume lines back gives the rate of \<^verbatim>\<open>map\<close> exactly and the
  pitch and the volume of \<^verbatim>\<open>map\<close> rounded to two decimals (format \<^verbatim>\<open>.2f\<close>), each
  within 0.005 of the value of \<^verbatim>\<open>map\<close> and in general not equal to it.
\<close>

theorem explain_reflects_map_rounded:
  "\<exists>p ls. map_voice m emo i = Inr p \<and>
          explain_lines repr m emo i = Inr ls \<and>
          explain repr m emo i = Inr (join [CHR 10] ls) \<and>
          reparse ls = Some \<lparr>rate = rate p, pitch = py_round (pitch p) 2,
                              volume = py_round (volume p) 2\<rparr> \<and>
          \<bar>py_round (pitch p) 2 - pitch p\<bar> \<le> 1 / 200 \<and>
          \<bar>py_round (volume p) 2 - volume p\<bar> \<le> 1 / 200"
proof -
  obtain p where p: "map_voice m emo i = Inr p" using map_voice_total by blast
  obtain rd pt vd where prof: "dict_get EMOTION_PROFILE emo (0, 1, 0) = (rd, pt, vd)"
    by (cases "dict_get EMOTION_PROFILE emo (0, 1, 0)")
  let ?ls = "[''Emotion:   '' @ emo,
              ''Intensity: '' @ fmt_percent 1 i,
              '''',
              ''Voice Parameters (intensity-scaled):'',
              ''  Rate:   '' @ str_int (rate p) @ '' wpm  (baseline ''
                @ (str_int (baseline_rate m) @ '', delta ''
                @ fmt_plus_d rd @ '' '' @ times_sign @ '' ''
                @ fmt_f 2 i @ '')''),
              ''  Pitch:  '' @ fmt_f 2 (pitch p) @ times_sign
                @ (''  (baseline '' @ repr (baseline_pitch m) @ '', target ''
                @ repr pt @ times_sign @ '' '' @ times_sign @ '' ''
                @ fmt_f 2 i @ '')''),
              ''  Volume: '' @ fmt_f 2 (volume p) @ ''  (baseline ''
                @ (repr (baseline_volume m) @ '', delta ''
                @ fmt_plus_f 2 vd @ '' '' @ times_sign @ '' ''
                @ fmt_f 2 i @ '')'')]"
  have l: "explain_lines repr m emo i = Inr ?ls"
    by (simp add: explain_lines_def p neutral_profile prof)
  then have e: "explain repr m emo i = Inr (join [CHR 10] ?ls)"
    by (simp only: explain_def sum.case)
  have r: "reparse ?ls = Some \<lparr>rate = rate p, pitch = py_round (pitch p) 2,
                               volume = py_round (volume p) 2\<rparr>"
    by (rule reparse_lines)
  from p l e r py_round_2_error [of "pitch p"] py_round_2_error [of "volume p"]
  show ?thesis by blast
qed

text \<open>
  The claim as stated fails: \<^verbatim>\<open>map("joy", 0.25)\<close> has pitch 1.0875 and volume 0.8875, and
  the explanation shows 1.09 and 0.89.
\<close>

theorem explain_not_exact:
  "map_voice VoiceMapper_init ''joy'' (1 / 4)
     = Inr \<lparr>rate = 215, pitch = 87 / 80, volume = 71 / 80\<rparr>
   \<and> map_sum id reparse (explain_lines repr_decimal VoiceMapper_init ''joy'' (1 / 4))
     = Inr (Some \<lparr>rate = 215, pitch = 109 / 100, volume = 89 / 100\<rparr>)"
  by code_simp

end
